theory Spec2Isabelle
  imports
    Main
    "HOL-Library.Char_ord"
    "HOL-Library.List_Lexorder"
    "HOL-Library.Product_Lexorder"
    "HOL-Library.Sublist"
    "HOL-Library.Multiset"
    "HOL-Library.AList"
begin

section \<open>Agent radar: the two feed pipelines\<close>

text \<open>
  The repository holds two evolutions of one pipeline:
  \<^item> \<^verbatim>\<open>scripts/build_agent_radar.py\<close>, the incremental script (it reads a prior
    snapshot with \<^verbatim>\<open>--in\<close> and merges); its functions keep their names here;
  \<^item> \<^verbatim>\<open>.github/workflows/build_agent_radar.py\<close>, the stateless script; where it
    differs, its functions carry the suffix \<open>_wf\<close>.

  Conventions of the embedding.
  \<^item> A Python \<^verbatim>\<open>str\<close> is a \<open>string\<close>, and comparison is the lexicographic
    order of the characters, as Python's comparison by code point is.
    \<^verbatim>\<open>lower()\<close> is computed on a string of ASCII characters; on any other string
    it is what the Unicode tables of the interpreter give, a parameter.
  \<^item> A Python value read from a feed or from JSON is a \<open>pyval\<close>; a dictionary is an
    association list read with \<open>map_of\<close>.
  \<^item> An exception that leaves a function is \<open>Inl\<close> of an \<open>error\<close>.
  \<^item> The libraries the scripts call (dateutil, datetime, requests, feedparser, the
    clock) are parameters, collected in the record \<open>env\<close>.
\<close>

subsection \<open>Strings\<close>

text \<open>
  The letters \<^verbatim>\<open>A\<close> to \<^verbatim>\<open>Z\<close> in lower env case, and the characters of ASCII (the
  codes below 128).
\<close>

definition lower_char :: "char \<Rightarrow> char" where
  "lower_char c =
     (case map_of (zip ''ABCDEFGHIJKLMNOPQRSTUVWXYZ'' ''abcdefghijklmnopqrstuvwxyz'') c of
        None \<Rightarrow> c
      | Some l \<Rightarrow> l)"

definition is_ascii :: "char \<Rightarrow> bool" where
  "is_ascii c = (of_char c < (128 :: nat))"

text \<open>Python's \<^verbatim>\<open>k in t\<close> on strings: \<open>k\<close> occurs in \<open>t\<close> as a contiguous piece.\<close>

fun starts_with :: "string \<Rightarrow> string \<Rightarrow> bool" where
  "starts_with [] t = True"
| "starts_with (k # ks) [] = False"
| "starts_with (k # ks) (c # cs) = (k = c \<and> starts_with ks cs)"

fun str_in :: "string \<Rightarrow> string \<Rightarrow> bool" where
  "str_in k [] = (k = [])"
| "str_in k (c # cs) = (starts_with k (c # cs) \<or> str_in k cs)"

subsection \<open>The time window\<close>

text \<open>
  A timezone-aware \<^verbatim>\<open>datetime\<close> is the number of microseconds since the epoch, so
  that the difference of two of them is the \<^verbatim>\<open>timedelta\<close> in microseconds and
  \<^verbatim>\<open>.days\<close> is its floor division by one day. An absent timestamp (\<^verbatim>\<open>None\<close>) is
  \<open>None\<close>. The reading of the clock, \<^verbatim>\<open>datetime.now(timezone.utc)\<close>, is the
  argument \<open>now\<close>. The function is the same in both scripts.
\<close>

type_synonym datetime = int

definition day_us :: int where
  "day_us = 86400000000"

definition timedelta_days :: "int \<Rightarrow> int" where
  "timedelta_days delta = delta div day_us"

definition in_window :: "datetime \<Rightarrow> datetime option \<Rightarrow> int \<Rightarrow> bool" where
  "in_window now dt days =
     (case dt of None \<Rightarrow> False | Some d \<Rightarrow> timedelta_days (now - d) \<le> days)"


subsection \<open>Python values, dictionaries and exceptions\<close>

text \<open>
  \<^verbatim>\<open>time.struct_time\<close> is a tuple of nine integers (year, month, day, hour, minute,
  second, weekday, day of the year, DST flag). A \<open>pyval\<close> is what an entry of a feed or
  a JSON document can hold; JSON numbers are shown as integers.
\<close>

datatype struct_time = StructTime int int int int int int int int int

datatype pyval =
    PNone
  | PBool bool
  | PInt int
  | PStr string
  | PList "pyval list"
  | PDict "(string \<times> pyval) list"
  | PTime struct_time

type_synonym dict = "(string \<times> pyval) list"

datatype error = TypeError | AttributeError | ValueError | OSError

fun bindE :: "error + 'a \<Rightarrow> ('a \<Rightarrow> error + 'b) \<Rightarrow> error + 'b" where
  "bindE (Inl x) f = Inl x"
| "bindE (Inr a) f = f a"

text \<open>A \<^verbatim>\<open>for\<close> loop whose body updates a state and may raise.\<close>

fun for_each :: "('a \<Rightarrow> 's \<Rightarrow> error + 's) \<Rightarrow> 'a list \<Rightarrow> 's \<Rightarrow> error + 's" where
  "for_each body [] s = Inr s"
| "for_each body (x # xs) s =
     (case body x s of Inl err \<Rightarrow> Inl err | Inr s' \<Rightarrow> for_each body xs s')"

text \<open>Truth value of an object, as \<^verbatim>\<open>not v\<close> and \<^verbatim>\<open>a or b\<close> test it.\<close>

fun truthy :: "pyval \<Rightarrow> bool" where
  "truthy PNone = False"
| "truthy (PBool b) = b"
| "truthy (PInt n) = (n \<noteq> 0)"
| "truthy (PStr s) = (s \<noteq> [])"
| "truthy (PList xs) = (xs \<noteq> [])"
| "truthy (PDict d) = (d \<noteq> [])"
| "truthy (PTime t) = True"

definition py_or :: "pyval \<Rightarrow> pyval \<Rightarrow> pyval" where
  "py_or a b = (if truthy a then a else b)"

text \<open>\<^verbatim>\<open>d.get(k)\<close> and \<^verbatim>\<open>d.get(k, default)\<close> on a dictionary.\<close>

definition dict_get :: "dict \<Rightarrow> string \<Rightarrow> pyval" where
  "dict_get d k = (case map_of d k of None \<Rightarrow> PNone | Some v \<Rightarrow> v)"

definition dict_get_default :: "dict \<Rightarrow> string \<Rightarrow> pyval \<Rightarrow> pyval" where
  "dict_get_default d k dflt = (case map_of d k of None \<Rightarrow> dflt | Some v \<Rightarrow> v)"

text \<open>\<^verbatim>\<open>j.get(k, default)\<close> on any object: only a dictionary has the method.\<close>

fun method_get :: "pyval \<Rightarrow> string \<Rightarrow> pyval \<Rightarrow> error + pyval" where
  "method_get (PDict d) k dflt = Inr (dict_get_default d k dflt)"
| "method_get j k dflt = Inl AttributeError"

text \<open>
  \<^verbatim>\<open>for x in v\<close>: a list gives its elements, a string its characters, a dictionary
  its keys, a tuple its components; the other objects are not iterable.
\<close>

fun py_iter :: "pyval \<Rightarrow> error + pyval list" where
  "py_iter (PList xs) = Inr xs"
| "py_iter (PStr s) = Inr (map (\<lambda>c. PStr [c]) s)"
| "py_iter (PDict d) = Inr (map (\<lambda>kv. PStr (fst kv)) d)"
| "py_iter (PTime (StructTime y mo d h mi sec wd yd dst)) =
     Inr (map PInt [y, mo, d, h, mi, sec, wd, yd, dst])"
| "py_iter v = Inl TypeError"

text \<open>\<^verbatim>\<open>[it for it in xs if isinstance(it, dict)]\<close>.\<close>

fun dicts_of :: "pyval list \<Rightarrow> dict list" where
  "dicts_of [] = []"
| "dicts_of (PDict d # xs) = d # dicts_of xs"
| "dicts_of (v # xs) = dicts_of xs"

text \<open>
  \<^verbatim>\<open>v[:n]\<close> for \<open>n \<ge> 0\<close> on an object: strings, lists and tuples can be sliced (the
  slice of a tuple is shown as a list); the other objects raise.
\<close>

fun slice_to :: "nat \<Rightarrow> pyval \<Rightarrow> error + pyval" where
  "slice_to n (PStr s) = Inr (PStr (take n s))"
| "slice_to n (PList xs) = Inr (PList (take n xs))"
| "slice_to n (PTime (StructTime y mo d h mi sec wd yd dst)) =
     Inr (PList (take n (map PInt [y, mo, d, h, mi, sec, wd, yd, dst])))"
| "slice_to n v = Inl TypeError"

text \<open>\<^verbatim>\<open>xs[:n]\<close> on a list, for any integer \<open>n\<close>: a negative \<open>n\<close> counts from the end.\<close>

definition py_take :: "int \<Rightarrow> 'a list \<Rightarrow> 'a list" where
  "py_take n xs = (if 0 \<le> n then take (nat n) xs else take (length xs - nat (- n)) xs)"

subsection \<open>The environment\<close>

text \<open>
  What the scripts get from their libraries and from the outside world.
  \<^item> \<open>dtp_parse\<close>: \<^verbatim>\<open>dateutil.parser.parse\<close> followed by the normalisation to UTC of
    \<^verbatim>\<open>norm_date\<close>; \<open>None\<close> when the parser raises.
  \<^item> \<open>datetime_utc\<close>: \<^verbatim>\<open>datetime(*v[:6], tzinfo=timezone.utc)\<close>; \<open>None\<close> when the
    constructor raises \<^verbatim>\<open>ValueError\<close>.
  \<^item> \<open>strftime_ymd\<close>: \<^verbatim>\<open>dt.strftime("%Y-%m-%d")\<close>.
  \<^item> \<open>py_str\<close>: how an f-string renders an object that is not a string.
  \<^item> \<open>requests_json\<close>, \<open>feedparser_parse\<close>: the document or the entries a URL
    gives; \<open>None\<close> when the call raises.
  \<^item> \<open>html_summary\<close>: the function of that name, which asks the network for a page
    and returns a string, empty on any failure.
  \<^item> \<open>clock\<close>: \<^verbatim>\<open>datetime.now(timezone.utc)\<close> at the call of \<^verbatim>\<open>in_window\<close> for the
    \<open>n\<close>-th entry of the run.
  \<^item> \<open>files\<close>: the file system, as \<^verbatim>\<open>load_existing\<close> sees a path.
  \<^item> \<open>str_lower\<close>: \<^verbatim>\<open>s.lower()\<close> on a string that holds a character outside ASCII,
    where the result depends on the Unicode tables of the interpreter.
\<close>

datatype feed_data = NoData | FeedData "pyval list" | JsonData pyval

datatype file_state = Missing | Unreadable | Malformed | Holds pyval

record env =
  dtp_parse :: "string \<Rightarrow> datetime option"
  datetime_utc :: "struct_time \<Rightarrow> datetime option"
  strftime_ymd :: "datetime \<Rightarrow> string"
  py_str :: "pyval \<Rightarrow> string"
  requests_json :: "string \<Rightarrow> pyval option"
  feedparser_parse :: "string \<Rightarrow> pyval list option"
  html_summary :: "pyval \<Rightarrow> string"
  clock :: "nat \<Rightarrow> datetime"
  files :: "string \<Rightarrow> file_state"
  str_lower :: "string \<Rightarrow> string"

text \<open>The vendor descriptors, after the defaults of \<^verbatim>\<open>v.get\<close>, and the options.\<close>

record vendor =
  v_name :: string
  v_audience :: string
  v_impact :: int
  v_risk :: int
  v_keywords :: "string list"
  v_feeds :: "string list"

record args =
  a_infile :: string
  a_days :: int
  a_top :: int

subsection \<open>Lower case\<close>

text \<open>
  \<^verbatim>\<open>s.lower()\<close>. On a string of ASCII characters it changes the letters \<^verbatim>\<open>A\<close> to
  \<^verbatim>\<open>Z\<close> and nothing else. On any other string it is the library's function: a
  character outside ASCII may change, may become an ASCII letter and may become several
  characters.
\<close>

definition lower :: "env \<Rightarrow> string \<Rightarrow> string" where
  "lower env s = (if list_all is_ascii s then map lower_char s else str_lower env s)"

subsection \<open>The classifier\<close>

text \<open>
  \<^verbatim>\<open>classify(text)\<close> of the incremental script. Its argument is always the
  f-string \<^verbatim>\<open>text\<close>, a \<^verbatim>\<open>str\<close>, so \<^verbatim>\<open>(text or "")\<close> is \<open>text\<close>.
\<close>

definition classify :: "env \<Rightarrow> string \<Rightarrow> string" where
  "classify env text =
     (let t = lower env text in
      if str_in ''deprecat'' t \<or> str_in ''sunset'' t then ''deprecation''
      else if str_in ''pricing'' t \<or> str_in ''price'' t \<or> str_in ''$'' t then ''pricing''
      else if str_in ''ga'' t \<or> str_in ''general availability'' t \<or> str_in ''launch'' t
              \<or> str_in ''introduc'' t then ''launch''
      else ''upgrade'')"

text \<open>
  The stateless script classifies inline (lines 99 to 106 of its \<^verbatim>\<open>main\<close>): \<^verbatim>\<open>tp\<close>
  starts as \<^verbatim>\<open>"upgrade"\<close> and three \<^verbatim>\<open>if\<close> statements in a row overwrite it.
\<close>

definition classify_wf :: "env \<Rightarrow> string \<Rightarrow> string" where
  "classify_wf env text =
     (let lower = lower env text;
          tp = ''upgrade'';
          tp = (if str_in ''ga'' lower \<or> str_in ''general availability'' lower
                   \<or> str_in ''launch'' lower \<or> str_in ''introduc'' lower
                then ''launch'' else tp);
          tp = (if str_in ''deprecat'' lower \<or> str_in ''sunset'' lower
                then ''deprecation'' else tp);
          tp = (if str_in ''pricing'' lower \<or> str_in ''$'' lower \<or> str_in ''price'' lower
                then ''pricing'' else tp)
      in tp)"

subsection \<open>Dates\<close>

text \<open>
  \<^verbatim>\<open>norm_date(s)\<close>, the same in both scripts: a falsy \<open>s\<close> gives \<^verbatim>\<open>None\<close>; the
  parser raises on an object that is not a string, and every exception gives
  \<^verbatim>\<open>None\<close>.
\<close>

definition norm_date :: "env \<Rightarrow> pyval \<Rightarrow> datetime option" where
  "norm_date env s =
     (if \<not> truthy s then None
      else case s of PStr t \<Rightarrow> dtp_parse env t | _ \<Rightarrow> None)"

text \<open>
  The \<^verbatim>\<open>for k in [...]\<close> loop of \<^verbatim>\<open>pick_date\<close>, the same in both scripts. The result
  \<open>Inr None\<close> says that the loop ended without a \<^verbatim>\<open>return\<close>.
\<close>

fun pick_loop :: "env \<Rightarrow> dict \<Rightarrow> string list \<Rightarrow> error + datetime option" where
  "pick_loop env entry [] = Inr None"
| "pick_loop env entry (k # ks) =
     (let v = py_or (dict_get entry k) (dict_get entry (k @ ''_parsed'')) in
      case v of
        PTime t \<Rightarrow>
          (case datetime_utc env t of None \<Rightarrow> Inl ValueError | Some d \<Rightarrow> Inr (Some d))
      | PStr s \<Rightarrow>
          (case norm_date env v of None \<Rightarrow> pick_loop env entry ks | Some d \<Rightarrow> Inr (Some d))
      | _ \<Rightarrow> pick_loop env entry ks)"

definition date_keys :: "string list" where
  "date_keys = [''published'', ''updated'', ''date'', ''created'']"

definition pick_date :: "env \<Rightarrow> dict \<Rightarrow> error + datetime option" where
  "pick_date env entry =
     (case pick_loop env entry date_keys of
        Inl err \<Rightarrow> Inl err
      | Inr (Some d) \<Rightarrow> Inr (Some d)
      | Inr None \<Rightarrow>
          if ''date_published'' \<in> fst ` set entry
          then Inr (norm_date env (dict_get entry ''date_published''))
          else Inr None)"

definition pick_date_wf :: "env \<Rightarrow> dict \<Rightarrow> error + datetime option" where
  "pick_date_wf env entry = pick_loop env entry date_keys"

text \<open>
  The stateless script calls \<^verbatim>\<open>pick_date(e) or norm_date(e.get("date_published"))\<close>;
  a \<^verbatim>\<open>datetime\<close> is always truthy.
\<close>

definition entry_date_wf :: "env \<Rightarrow> dict \<Rightarrow> error + datetime option" where
  "entry_date_wf env e =
     (case pick_date_wf env e of
        Inl err \<Rightarrow> Inl err
      | Inr (Some d) \<Rightarrow> Inr (Some d)
      | Inr None \<Rightarrow> Inr (norm_date env (dict_get e ''date_published'')))"

subsection \<open>Identifiers\<close>

text \<open>The character class \<^verbatim>\<open>[a-z0-9]\<close>.\<close>

definition alnum :: "char \<Rightarrow> bool" where
  "alnum c = (CHR ''a'' \<le> c \<and> c \<le> CHR ''z'' \<or> CHR ''0'' \<le> c \<and> c \<le> CHR ''9'')"

text \<open>
  \<^verbatim>\<open>re.sub(r"[^a-z0-9]+", "-", s)\<close>: from left to right, every maximal run of
  characters outside the class becomes one \<^verbatim>\<open>-\<close>.
\<close>

function re_sub_dash :: "string \<Rightarrow> string" where
  "re_sub_dash [] = []"
| "re_sub_dash (c # cs) =
     (if alnum c then c # re_sub_dash cs
      else CHR ''-'' # re_sub_dash (dropWhile (\<lambda>x. \<not> alnum x) cs))"
  by pat_completeness auto
termination
  by (relation "measure length") (auto simp: less_Suc_eq_le length_dropWhile_le)

text \<open>\<^verbatim>\<open>s.strip("-")\<close>: the dashes at the left end go, then those at the right end.\<close>

definition rstrip_dash :: "string \<Rightarrow> string" where
  "rstrip_dash s = rev (dropWhile (\<lambda>c. c = CHR ''-'') (rev s))"

definition strip_dash :: "string \<Rightarrow> string" where
  "strip_dash s = rstrip_dash (dropWhile (\<lambda>c. c = CHR ''-'') s)"

text \<open>
  \<^verbatim>\<open>safe_id(date_str, vendor, title)\<close> of the incremental script, on strings
  (\<^verbatim>\<open>(title or "")\<close> is then \<open>title\<close>).
\<close>

definition safe_id :: "env \<Rightarrow> string \<Rightarrow> string \<Rightarrow> string \<Rightarrow> string" where
  "safe_id env date_str vendor title =
     (let slug = take 50 (strip_dash (re_sub_dash (lower env title)));
          vendor_slug = strip_dash (re_sub_dash (lower env vendor))
      in date_str @ ''-'' @ vendor_slug @ ''-'' @ slug)"

text \<open>The \<^verbatim>\<open>"id"\<close> of the item literal of the stateless script (line 114).\<close>

definition item_id_wf :: "env \<Rightarrow> string \<Rightarrow> string \<Rightarrow> string \<Rightarrow> string" where
  "item_id_wf env date_str vendor title =
     date_str @ ''-'' @ lower env vendor @ ''-''
       @ take 40 (strip_dash (re_sub_dash (lower env title)))"

subsection \<open>Keywords\<close>

definition GLOBAL_KEYS :: "string list" where
  "GLOBAL_KEYS =
     [''agent'', ''agents'', ''agent engine'', ''agent builder'', ''agentspace'', ''a2a'',
      ''mcp'', ''governance'', ''rbac'', ''observability'', ''pricing'', ''ga'',
      ''general availability'', ''deprecate'', ''deprecation'', ''sunset'', ''identity'',
      ''memory'']"

definition KEYS :: "string list" where
  "KEYS =
     [''agent'', ''agents'', ''agent os'', ''agent engine'', ''agent builder'', ''mcp'',
      ''guardrails'', ''governance'', ''observability'', ''trace'', ''pricing'', ''ga'',
      ''general availability'', ''deprecation'', ''vertex'', ''bedrock'', ''langgraph'']"

text \<open>
  \<^verbatim>\<open>match(text, kws)\<close> of the incremental script and \<^verbatim>\<open>match_keywords(text, kws)\<close>
  of the stateless one compute the same on a string.
\<close>

definition match_kws :: "env \<Rightarrow> string \<Rightarrow> string list \<Rightarrow> bool" where
  "match_kws env text kws = (let t = lower env text in list_ex (\<lambda>k. str_in (lower env k) t) kws)"

text \<open>\<^verbatim>\<open>sorted(set(GLOBAL_KEYS + keywords))\<close> and \<^verbatim>\<open>list(set(KEYS + keywords))\<close>.\<close>

definition vendor_kws :: "vendor \<Rightarrow> string list" where
  "vendor_kws v = sort (remdups (GLOBAL_KEYS @ v_keywords v))"

definition vendor_kws_wf :: "vendor \<Rightarrow> string list" where
  "vendor_kws_wf v = remdups (KEYS @ v_keywords v)"

subsection \<open>Feeds\<close>

definition ends_with :: "string \<Rightarrow> string \<Rightarrow> bool" where
  "ends_with s suf = starts_with (rev suf) (rev s)"

text \<open>
  \<^verbatim>\<open>fetch_feed(url)\<close>: the dictionary \<^verbatim>\<open>{"json": ...}\<close>, \<^verbatim>\<open>{"feed": ...}\<close> or,
  after any exception, \<^verbatim>\<open>{}\<close>.
\<close>

definition fetch_feed :: "env \<Rightarrow> string \<Rightarrow> feed_data" where
  "fetch_feed env url =
     (if ends_with url ''.json''
      then (case requests_json env url of None \<Rightarrow> NoData | Some j \<Rightarrow> JsonData j)
      else (case feedparser_parse env url of None \<Rightarrow> NoData | Some es \<Rightarrow> FeedData es))"

text \<open>
  \<^verbatim>\<open>j.get("items", j.get("value", {}).get("items", []))\<close>: Python computes the default
  first, so \<^verbatim>\<open>j\<close> and \<^verbatim>\<open>j["value"]\<close> must both be dictionaries.
\<close>

definition json_items :: "pyval \<Rightarrow> error + pyval" where
  "json_items j =
     bindE (method_get j ''value'' (PDict [])) (\<lambda>v.
     bindE (method_get v ''items'' (PList [])) (\<lambda>dflt.
     method_get j ''items'' dflt))"

text \<open>The entries the loop \<^verbatim>\<open>for e in entries\<close> of the incremental script walks.\<close>

definition feed_entries :: "env \<Rightarrow> string \<Rightarrow> error + pyval list" where
  "feed_entries env url =
     (case fetch_feed env url of
        NoData \<Rightarrow> Inr []
      | FeedData es \<Rightarrow> Inr es
      | JsonData j \<Rightarrow> bindE (json_items j) (\<lambda>r. py_iter (py_or r (PList []))))"

text \<open>The stateless script has no \<^verbatim>\<open>or []\<close> after the JSON lookup.\<close>

definition feed_entries_wf :: "env \<Rightarrow> string \<Rightarrow> error + pyval list" where
  "feed_entries_wf env url =
     (case fetch_feed env url of
        NoData \<Rightarrow> Inr []
      | FeedData es \<Rightarrow> Inr es
      | JsonData j \<Rightarrow> bindE (json_items j) py_iter)"

subsection \<open>Items\<close>

text \<open>
  The item literal of both scripts. The incremental script keeps items as
  dictionaries, next to those of the prior snapshot: \<open>item_dict\<close> is the literal's
  dictionary.
\<close>

record item =
  i_id :: string
  i_date :: string
  i_name :: string
  i_vendor :: string
  i_type :: string
  i_summary :: pyval
  i_sources :: "dict list"
  i_impact :: int
  i_risk :: int
  i_audience :: string
  i_tags :: "pyval list"

definition item_dict :: "item \<Rightarrow> dict" where
  "item_dict it =
     [(''id'', PStr (i_id it)),
      (''date'', PStr (i_date it)),
      (''name'', PStr (i_name it)),
      (''vendor'', PStr (i_vendor it)),
      (''type'', PStr (i_type it)),
      (''summary'', i_summary it),
      (''sources'', PList (map PDict (i_sources it))),
      (''impact'', PInt (i_impact it)),
      (''risk'', PInt (i_risk it)),
      (''audience'', PStr (i_audience it)),
      (''tags'', PList (i_tags it))]"

text \<open>Fields of a raw entry, with their fallback chains.\<close>

definition entry_title :: "dict \<Rightarrow> pyval" where
  "entry_title e = py_or (dict_get e ''title'') (py_or (dict_get e ''heading'') (PStr []))"

definition entry_link :: "dict \<Rightarrow> pyval" where
  "entry_link e = py_or (dict_get e ''link'') (py_or (dict_get e ''url'') (PStr []))"

text \<open>\<^verbatim>\<open>e.get("summary") or e.get("content_text") or ""\<close>.\<close>

definition entry_summary :: "dict \<Rightarrow> pyval" where
  "entry_summary e =
     py_or (dict_get e ''summary'') (py_or (dict_get e ''content_text'') (PStr []))"

text \<open>\<^verbatim>\<open>e.get("summary") or e.get("content", "")\<close> of the stateless script.\<close>

definition entry_desc_wf :: "dict \<Rightarrow> pyval" where
  "entry_desc_wf e = py_or (dict_get e ''summary'') (dict_get_default e ''content'' (PStr []))"

text \<open>An object inside an f-string.\<close>

definition fmt :: "env \<Rightarrow> pyval \<Rightarrow> string" where
  "fmt env v = (case v of PStr s \<Rightarrow> s | _ \<Rightarrow> py_str env v)"

text \<open>
  The summary of an item (the same lines in both scripts): the first 220 characters of
  the entry's own text, or what \<^verbatim>\<open>html_summary(link)\<close> returns when that is empty.
\<close>

definition item_summary :: "env \<Rightarrow> dict \<Rightarrow> pyval \<Rightarrow> error + pyval" where
  "item_summary env e link =
     bindE (slice_to 220 (entry_summary e)) (\<lambda>summ.
     Inr (if \<not> truthy summ then PStr (html_summary env link) else summ))"

subsection \<open>The incremental script\<close>

text \<open>
  Lines 123 to 133 of \<^verbatim>\<open>main\<close>: from a raw entry to the data of a candidate item, or
  \<open>None\<close> where the loop says \<^verbatim>\<open>continue\<close>. \<^verbatim>\<open>safe_id\<close> calls \<^verbatim>\<open>lower()\<close> on the
  title, which only a string has.
\<close>

record candidate =
  c_title :: string
  c_link :: pyval
  c_date :: string
  c_type :: string
  c_id :: string

definition prepare :: "env \<Rightarrow> int \<Rightarrow> datetime \<Rightarrow> vendor \<Rightarrow> string list \<Rightarrow> dict
    \<Rightarrow> error + candidate option" where
  "prepare env days now v kws e =
     (let title = entry_title e; link = entry_link e in
      if \<not> truthy link \<or> \<not> truthy title then Inr None
      else bindE (pick_date env e) (\<lambda>dt.
        if \<not> in_window now dt days then Inr None
        else
          let text = fmt env title @ '' '' @ fmt env (entry_summary e) @ '' '' @ fmt env link in
          if \<not> match_kws env text kws then Inr None
          else
            let ttype = classify env text;
                date_str = strftime_ymd env (the dt)
            in case title of
                 PStr t \<Rightarrow>
                   Inr (Some \<lparr>c_title = t, c_link = link, c_date = date_str, c_type = ttype,
                              c_id = safe_id env date_str (v_name v) t\<rparr>)
               | _ \<Rightarrow> Inl AttributeError))"

text \<open>Lines 136 to 152: the summary and the item literal.\<close>

definition build_item :: "env \<Rightarrow> vendor \<Rightarrow> dict \<Rightarrow> candidate \<Rightarrow> error + item" where
  "build_item env v e c =
     bindE (item_summary env e (c_link c)) (\<lambda>summ.
     Inr \<lparr>i_id = c_id c,
          i_date = c_date c,
          i_name = take 160 (c_title c),
          i_vendor = v_name v,
          i_type = c_type c,
          i_summary = summ,
          i_sources = [[(''title'', PStr (v_name v @ '' source'')), (''url'', c_link c)]],
          i_impact = v_impact v,
          i_risk = v_risk v,
          i_audience = v_audience v,
          i_tags = []\<rparr>)"

text \<open>
  The state of the loops: the set \<^verbatim>\<open>seen\<close>, the list \<^verbatim>\<open>merged\<close> and the number of
  entries handled so far, which numbers the readings of the clock. Of \<^verbatim>\<open>seen\<close> only
  the strings matter: it is only ever asked whether it holds a string.
\<close>

record state =
  seen :: "string set"
  merged :: "dict list"
  tick :: nat

definition process_entry :: "env \<Rightarrow> int \<Rightarrow> vendor \<Rightarrow> string list \<Rightarrow> pyval \<Rightarrow> state
    \<Rightarrow> error + state" where
  "process_entry env days v kws ev st =
     (case ev of
        PDict e \<Rightarrow>
          (case prepare env days (clock env (tick st)) v kws e of
             Inl err \<Rightarrow> Inl err
           | Inr None \<Rightarrow> Inr (st\<lparr>tick := Suc (tick st)\<rparr>)
           | Inr (Some c) \<Rightarrow>
               if c_id c \<in> seen st then Inr (st\<lparr>tick := Suc (tick st)\<rparr>)
               else
                 (case build_item env v e c of
                    Inl err \<Rightarrow> Inl err
                  | Inr it \<Rightarrow>
                      Inr \<lparr>seen = insert (c_id c) (seen st),
                           merged = merged st @ [item_dict it],
                           tick = Suc (tick st)\<rparr>))
      | _ \<Rightarrow> Inl AttributeError)"

definition process_feed :: "env \<Rightarrow> int \<Rightarrow> vendor \<Rightarrow> string list \<Rightarrow> string \<Rightarrow> state
    \<Rightarrow> error + state" where
  "process_feed env days v kws feed_url st =
     bindE (feed_entries env feed_url) (\<lambda>entries.
     for_each (process_entry env days v kws) entries st)"

definition process_vendor :: "env \<Rightarrow> int \<Rightarrow> vendor \<Rightarrow> state \<Rightarrow> error + state" where
  "process_vendor env days v st =
     for_each (process_feed env days v (vendor_kws v)) (v_feeds v) st"

text \<open>
  \<^verbatim>\<open>load_existing(path)\<close>. \<^verbatim>\<open>os.path.exists\<close> is false on a \<open>Missing\<close> path;
  \<^verbatim>\<open>open\<close> raises on an \<open>Unreadable\<close> one and \<^verbatim>\<open>json.load\<close> on a \<open>Malformed\<close>
  one. The \<^verbatim>\<open>try\<close> block turns every exception into \<^verbatim>\<open>[]\<close>.
\<close>

fun json_load :: "file_state \<Rightarrow> error + pyval" where
  "json_load Missing = Inl OSError"
| "json_load Unreadable = Inl OSError"
| "json_load Malformed = Inl ValueError"
| "json_load (Holds j) = Inr j"

definition load_existing :: "env \<Rightarrow> string \<Rightarrow> error + pyval" where
  "load_existing env path =
     (if path = [] \<or> files env path = Missing then Inr (PList [])
      else
        (case bindE (json_load (files env path)) (\<lambda>j.
                case j of PList xs \<Rightarrow> Inr j | _ \<Rightarrow> method_get j ''items'' (PList [])) of
           Inl err \<Rightarrow> Inr (PList [])
         | Inr r \<Rightarrow> Inr r))"

text \<open>
  \<^verbatim>\<open>it.get("id") or ""\<close> and \<^verbatim>\<open>key_date(it)\<close>, which is \<^verbatim>\<open>it.get("date") or ""\<close>.
\<close>

definition id_key :: "dict \<Rightarrow> pyval" where
  "id_key it = py_or (dict_get it ''id'') (PStr [])"

definition key_date :: "dict \<Rightarrow> pyval" where
  "key_date it = py_or (dict_get it ''date'') (PStr [])"

text \<open>
  \<^verbatim>\<open>set(...)\<close> hashes its elements, and lists and dictionaries cannot be hashed.
\<close>

fun hashable :: "pyval \<Rightarrow> bool" where
  "hashable (PList xs) = False"
| "hashable (PDict d) = False"
| "hashable v = True"

fun strs_of :: "pyval list \<Rightarrow> string list" where
  "strs_of [] = []"
| "strs_of (PStr s # vs) = s # strs_of vs"
| "strs_of (v # vs) = strs_of vs"

definition seen_of :: "dict list \<Rightarrow> error + string set" where
  "seen_of ds =
     (let keys = map id_key ds in
      if list_all hashable keys then Inr (set (strs_of keys)) else Inl TypeError)"

text \<open>
  \<^verbatim>\<open>xs.sort(key=..., reverse=True)\<close> and \<^verbatim>\<open>sorted(xs, key=..., reverse=True)\<close>.
  Python's sort is stable and stays so with \<^verbatim>\<open>reverse=True\<close>: CPython reverses
  the list, sorts it in ascending order and reverses the result. Any stable sort gives
  the same list, so the insertion sort \<open>sort_key\<close> stands for it.
\<close>

definition sorted_desc :: "('a \<Rightarrow> 'k::linorder) \<Rightarrow> 'a list \<Rightarrow> 'a list" where
  "sorted_desc key xs = rev (sort_key key (rev xs))"

text \<open>
  Python's \<^verbatim>\<open>==\<close> on these values. \<^verbatim>\<open>True\<close> and \<^verbatim>\<open>False\<close> are the numbers 1 and
  0; two lists are equal when they are so element by element; two dictionaries are equal
  when they have the same keys with equal values, in whatever order. \<open>canon\<close> brings
  equal values to one form (of a dictionary: the first entry of each key, in the order of
  the keys), so that \<^verbatim>\<open>a == b\<close> is \<open>canon a = canon b\<close>.
\<close>

primrec canon :: "pyval \<Rightarrow> pyval" where
  "canon PNone = PNone"
| "canon (PBool b) = PInt (if b then 1 else 0)"
| "canon (PInt n) = PInt n"
| "canon (PStr s) = PStr s"
| "canon (PList xs) = PList (map canon xs)"
| "canon (PDict d) = PDict (sort_key fst (AList.clearjunk (map (map_prod id canon) d)))"
| "canon (PTime t) = PTime t"

definition py_eq :: "pyval \<Rightarrow> pyval \<Rightarrow> bool" where
  "py_eq a b = (canon a = canon b)"

text \<open>
  Python's \<^verbatim>\<open>a < b\<close>, on values in the form of \<open>canon\<close>: numbers by value, strings
  by code point, lists and tuples lexicographically (the first pair of elements that are
  not equal decides, by its own \<^verbatim>\<open><\<close>; when there is none, the shorter one is the
  smaller). Every other pair raises \<^verbatim>\<open>TypeError\<close>: \<^verbatim>\<open>None\<close>, a dictionary, or
  two values of different kinds.
\<close>

fun time_tuple :: "struct_time \<Rightarrow> int list" where
  "time_tuple (StructTime y mo d h mi sec wd yd dst) = [y, mo, d, h, mi, sec, wd, yd, dst]"

fun lt_c :: "pyval \<Rightarrow> pyval \<Rightarrow> error + bool" where
  "lt_c (PInt m) (PInt n) = Inr (m < n)"
| "lt_c (PStr s) (PStr t) = Inr (s < t)"
| "lt_c (PTime s) (PTime t) = Inr (time_tuple s < time_tuple t)"
| "lt_c (PList []) (PList []) = Inr False"
| "lt_c (PList []) (PList (y # ys)) = Inr True"
| "lt_c (PList (x # xs)) (PList []) = Inr False"
| "lt_c (PList (x # xs)) (PList (y # ys)) =
     (if x = y then lt_c (PList xs) (PList ys) else lt_c x y)"
| "lt_c a b = Inl TypeError"

definition py_lt :: "pyval \<Rightarrow> pyval \<Rightarrow> error + bool" where
  "py_lt a b = lt_c (canon a) (canon b)"

text \<open>
  \<^verbatim>\<open>merged.sort(key=..., reverse=True)\<close>. The keys are objects, and the sort compares
  them with \<^verbatim>\<open><\<close> only. A list of at most one element is returned without a
  comparison. When every two keys of the list can be compared, the result is the stable
  sort, for which the insertion sort \<open>sort_lt\<close> stands as \<open>sort_key\<close> does above. When
  two keys of the list cannot be compared, the sort comes to compare such a pair and
  raises \<^verbatim>\<open>TypeError\<close>: among these values, whatever can be compared with both keys
  of such a pair is smaller than both or greater than both, so their order does not follow
  from other comparisons.
\<close>

fun insort_lt :: "('a \<Rightarrow> 'a \<Rightarrow> bool) \<Rightarrow> 'a \<Rightarrow> 'a list \<Rightarrow> 'a list" where
  "insort_lt lt x [] = [x]"
| "insort_lt lt x (y # ys) = (if lt y x then y # insort_lt lt x ys else x # y # ys)"

definition sort_lt :: "('a \<Rightarrow> 'a \<Rightarrow> bool) \<Rightarrow> 'a list \<Rightarrow> 'a list" where
  "sort_lt lt xs = foldr (insort_lt lt) xs []"

definition py_sort_desc :: "('a \<Rightarrow> pyval) \<Rightarrow> 'a list \<Rightarrow> error + 'a list" where
  "py_sort_desc key xs =
     (if length xs \<le> 1 then Inr xs
      else if list_all (\<lambda>x. list_all (\<lambda>y. \<not> isl (py_lt (key x) (key y))) xs) xs
        then Inr (rev (sort_lt (\<lambda>a b. py_lt (key a) (key b) = Inr True) (rev xs)))
        else Inl TypeError)"

text \<open>
  \<^verbatim>\<open>main\<close> up to the end of the loops (\<open>collect\<close>), and as a whole. The value is the
  list that \<^verbatim>\<open>save_out\<close> writes under \<^verbatim>\<open>"items"\<close>; writing the file and the Slack
  message are left out.
\<close>

definition collect :: "env \<Rightarrow> args \<Rightarrow> vendor list \<Rightarrow> error + state" where
  "collect env a vendors =
     bindE (load_existing env (a_infile a)) (\<lambda>existing.
     bindE (py_iter existing) (\<lambda>its.
     bindE (seen_of (dicts_of its)) (\<lambda>seen0.
     for_each (process_vendor env (a_days a)) vendors
       \<lparr>seen = seen0, merged = dicts_of its, tick = 0\<rparr>)))"

definition main :: "env \<Rightarrow> args \<Rightarrow> vendor list \<Rightarrow> error + dict list" where
  "main env a vendors =
     bindE (collect env a vendors) (\<lambda>st.
     bindE (py_sort_desc key_date (merged st)) (\<lambda>sorted_items.
     Inr (py_take (a_top a) sorted_items)))"

subsection \<open>The stateless script\<close>

text \<open>
  Lines 88 to 125 of its \<^verbatim>\<open>main\<close>: from a raw entry to an item, or \<open>None\<close> where the
  loop says \<^verbatim>\<open>continue\<close>. The summary is computed before the literal, whose first
  field calls \<^verbatim>\<open>lower()\<close> on the title.
\<close>

definition entry_item_wf :: "env \<Rightarrow> int \<Rightarrow> datetime \<Rightarrow> vendor \<Rightarrow> string list \<Rightarrow> dict
    \<Rightarrow> error + item option" where
  "entry_item_wf env days now v kws e =
     (let title = entry_title e; link = entry_link e in
      if \<not> truthy link then Inr None
      else bindE (entry_date_wf env e) (\<lambda>dt.
        if \<not> in_window now dt days then Inr None
        else
          let desc = entry_desc_wf e;
              text = fmt env title @ '' '' @ fmt env desc @ '' '' @ fmt env link
          in
          if \<not> match_kws env text kws then Inr None
          else
            let tp = classify_wf env text in
            bindE (item_summary env e link) (\<lambda>summ.
            case title of
              PStr t \<Rightarrow>
                Inr (Some
                  \<lparr>i_id = item_id_wf env (strftime_ymd env (the dt)) (v_name v) t,
                   i_date = strftime_ymd env (the dt),
                   i_name = take 120 t,
                   i_vendor = v_name v,
                   i_type = tp,
                   i_summary = summ,
                   i_sources = [[(''title'', PStr (v_name v @ '' source'')), (''url'', link)]],
                   i_impact = v_impact v,
                   i_risk = v_risk v,
                   i_audience = v_audience v,
                   i_tags = []\<rparr>)
            | _ \<Rightarrow> Inl AttributeError)))"

record state_wf =
  items :: "item list"
  tick_wf :: nat

definition process_entry_wf :: "env \<Rightarrow> int \<Rightarrow> vendor \<Rightarrow> string list \<Rightarrow> pyval \<Rightarrow> state_wf
    \<Rightarrow> error + state_wf" where
  "process_entry_wf env days v kws ev st =
     (case ev of
        PDict e \<Rightarrow>
          (case entry_item_wf env days (clock env (tick_wf st)) v kws e of
             Inl err \<Rightarrow> Inl err
           | Inr None \<Rightarrow> Inr (st\<lparr>tick_wf := Suc (tick_wf st)\<rparr>)
           | Inr (Some it) \<Rightarrow>
               Inr \<lparr>items = items st @ [it], tick_wf = Suc (tick_wf st)\<rparr>)
      | _ \<Rightarrow> Inl AttributeError)"

definition process_feed_wf :: "env \<Rightarrow> int \<Rightarrow> vendor \<Rightarrow> string list \<Rightarrow> string \<Rightarrow> state_wf
    \<Rightarrow> error + state_wf" where
  "process_feed_wf env days v kws feed_url st =
     bindE (feed_entries_wf env feed_url) (\<lambda>entries.
     for_each (process_entry_wf env days v kws) entries st)"

definition process_vendor_wf :: "env \<Rightarrow> int \<Rightarrow> vendor \<Rightarrow> state_wf \<Rightarrow> error + state_wf" where
  "process_vendor_wf env days v st =
     for_each (process_feed_wf env days v (vendor_kws_wf v)) (v_feeds v) st"

definition collect_wf :: "env \<Rightarrow> args \<Rightarrow> vendor list \<Rightarrow> error + state_wf" where
  "collect_wf env a vendors =
     for_each (process_vendor_wf env (a_days a)) vendors \<lparr>items = [], tick_wf = 0\<rparr>"

text \<open>The loop under the comment that says: remove duplicates (by vendor and name).\<close>

fun dedup :: "(string \<times> string) set \<Rightarrow> item list \<Rightarrow> item list" where
  "dedup seen_keys [] = []"
| "dedup seen_keys (it # its) =
     (let key = (i_vendor it, i_name it) in
      if key \<in> seen_keys then dedup seen_keys its
      else it # dedup (insert key seen_keys) its)"

definition main_wf :: "env \<Rightarrow> args \<Rightarrow> vendor list \<Rightarrow> error + item list" where
  "main_wf env a vendors =
     bindE (collect_wf env a vendors) (\<lambda>st.
     Inr (py_take (a_top a)
            (dedup {} (sorted_desc (\<lambda>x. (i_date x, i_vendor x)) (items st)))))"

subsection \<open>The specification's wording, for comparison\<close>

text \<open>
  The slug as the specification words it: the lower-cased text is cut at every run of
  characters that are not alphanumeric, the pieces are joined by one separator (so that
  none stands at either end), and the result is capped in length.
\<close>

function alnum_words :: "string \<Rightarrow> string list" where
  "alnum_words s =
     (case dropWhile (\<lambda>x. \<not> alnum x) s of
        [] \<Rightarrow> []
      | c # cs \<Rightarrow> takeWhile alnum (c # cs) # alnum_words (dropWhile alnum cs))"
  by pat_completeness auto
termination
proof (relation "measure length")
  fix s :: string and c cs
  assume "dropWhile (\<lambda>x. \<not> alnum x) s = c # cs"
  then have "length (c # cs) \<le> length s"
    by (metis length_dropWhile_le)
  moreover have "length (dropWhile alnum cs) \<le> length cs"
    by (rule length_dropWhile_le)
  ultimately show "(dropWhile alnum cs, s) \<in> measure length"
    by simp
qed simp

fun join_dash :: "string list \<Rightarrow> string" where
  "join_dash [] = []"
| "join_dash [w] = w"
| "join_dash (w # ws) = w @ CHR ''-'' # join_dash ws"

definition spec_slugify :: "env \<Rightarrow> nat \<Rightarrow> string \<Rightarrow> string" where
  "spec_slugify env cap s = take cap (join_dash (alnum_words (lower env s)))"

definition spec_id :: "env \<Rightarrow> nat \<Rightarrow> string \<Rightarrow> string \<Rightarrow> string \<Rightarrow> string" where
  "spec_id env cap date_str vendor title =
     date_str @ ''-'' @ spec_slugify env cap vendor @ ''-'' @ spec_slugify env cap title"



subsection \<open>A small world for the examples\<close>

text \<open>
  Three vendors with one feed each, a clock that stands at 2024-01-03 00:00 UTC, and
  tables for what the libraries return on the few values the examples use:
  1704067200 is the epoch second of 2024-01-01 00:00 UTC and 1704153600 that of
  2024-01-02 00:00 UTC.
\<close>

definition jan1 :: datetime where
  "jan1 = 1704067200000000"

definition jan2 :: datetime where
  "jan2 = 1704153600000000"

definition jan3 :: datetime where
  "jan3 = 1704240000000000"

definition entry_foo1 :: dict where
  "entry_foo1 =
     [(''title'', PStr ''Foo!''), (''link'', PStr ''https://acme.example/agent/1''),
      (''published'', PStr ''2024-01-01'')]"

definition entry_foo2 :: dict where
  "entry_foo2 =
     [(''title'', PStr ''Foo?''), (''link'', PStr ''https://acme.example/agent/2''),
      (''published'', PStr ''2024-01-01'')]"

definition entry_untitled :: dict where
  "entry_untitled =
     [(''link'', PStr ''https://acme.example/agent/3''), (''published'', PStr ''2024-01-02'')]"

definition entry_bolt :: dict where
  "entry_bolt =
     [(''title'', PStr ''Bolt agent GA''), (''link'', PStr ''https://bolt.example/1''),
      (''published'', PStr ''2024-01-01'')]"


definition prior_item :: dict where
  "prior_item =
     [(''id'', PStr ''2024-01-01-acme-foo''), (''date'', PStr ''2024-01-01''),
      (''name'', PStr ''Foo (as stored)'')]"

definition entry_bar_old :: dict where
  "entry_bar_old =
     [(''title'', PStr ''Bar agent''), (''link'', PStr ''https://cora.example/old''),
      (''published'', PStr ''2024-01-01'')]"

definition entry_bar_new :: dict where
  "entry_bar_new =
     [(''title'', PStr ''Bar agent''), (''link'', PStr ''https://cora.example/new''),
      (''published'', PStr ''2024-01-02'')]"

definition demo_env :: env where
  "demo_env =
     \<lparr>dtp_parse = (\<lambda>s. if s = ''2024-01-01'' then Some jan1
                        else if s = ''2024-01-02'' then Some jan2 else None),
      datetime_utc = (\<lambda>t. if t = StructTime 2024 1 1 0 0 0 0 1 0 then Some jan1 else None),
      strftime_ymd = (\<lambda>d. if d = jan1 then ''2024-01-01''
                           else if d = jan2 then ''2024-01-02'' else ''1970-01-01''),
      py_str = (\<lambda>v. ''None''),
      requests_json = (\<lambda>url. None),
      feedparser_parse = (\<lambda>url.
         if url = ''https://acme.example/feed''
           then Some [PDict entry_foo1, PDict entry_foo2, PDict entry_untitled]
         else if url = ''https://bolt.example/feed'' then Some [PDict entry_bolt]
         else if url = ''https://cora.example/feed''
           then Some [PDict entry_bar_old, PDict entry_bar_new]
         else None),
      html_summary = (\<lambda>link. []),
      clock = (\<lambda>n. jan3),
      files = (\<lambda>path.
         if path = ''prior.json'' then Holds (PDict [(''items'', PList [PDict prior_item])])
         else if path = ''twice.json''
           then Holds (PList [PDict [(''id'', PStr ''a'')], PDict [(''id'', PStr ''a'')]])
         else if path = ''five.json'' then Holds (PDict [(''items'', PInt 5)])
         else if path = ''numbers.json''
           then Holds (PList [PDict [(''id'', PStr ''a''), (''date'', PInt 5)],
                              PDict [(''id'', PStr ''b''), (''date'', PInt 7)],
                              PDict [(''id'', PStr ''c''), (''date'', PBool True)],
                              PDict [(''id'', PStr ''d''), (''date'', PInt 1)]])
         else Missing),
      str_lower = (\<lambda>s. s)\<rparr>"

definition acme :: vendor where
  "acme = \<lparr>v_name = ''Acme'', v_audience = ''dev'', v_impact = 3, v_risk = 3,
           v_keywords = [], v_feeds = [''https://acme.example/feed'']\<rparr>"

definition bolt :: vendor where
  "bolt = \<lparr>v_name = ''Bolt'', v_audience = ''dev'', v_impact = 3, v_risk = 3,
           v_keywords = [], v_feeds = [''https://bolt.example/feed'']\<rparr>"

definition cora :: vendor where
  "cora = \<lparr>v_name = ''Cora'', v_audience = ''dev'', v_impact = 3, v_risk = 3,
           v_keywords = [], v_feeds = [''https://cora.example/feed'']\<rparr>"

definition demo_args :: "string \<Rightarrow> args" where
  "demo_args path = \<lparr>a_infile = path, a_days = 30, a_top = 60\<rparr>"

subsection \<open>Notions used in the statements\<close>


text \<open>The dictionaries of the prior snapshot, as both comprehensions of \<^verbatim>\<open>main\<close> pick them.\<close>

definition prior_items :: "env \<Rightarrow> args \<Rightarrow> error + dict list" where
  "prior_items env a =
     bindE (load_existing env (a_infile a)) (\<lambda>existing.
     bindE (py_iter existing) (\<lambda>its.
     Inr (dicts_of its)))"


text \<open>
  The number of keys of \<open>S\<close> that are smaller than \<open>a\<close>: the place of \<open>a\<close>
  among keys that can all be compared.
\<close>

definition rank :: "pyval set \<Rightarrow> pyval \<Rightarrow> nat" where
  "rank S a = card {b \<in> S. py_lt b a = Inr True}"

text \<open>The key of the sort of the stateless script.\<close>

definition key_wf :: "item \<Rightarrow> string \<times> string" where
  "key_wf it = (i_date it, i_vendor it)"

text \<open>More entries for the examples.\<close>

definition entry_parsed_only :: dict where
  "entry_parsed_only = [(''published_parsed'', PTime (StructTime 2024 1 1 0 0 0 0 1 0))]"



definition start :: state where
  "start = \<lparr>seen = {}, merged = [], tick = 0\<rparr>"

text \<open>
  The state \<open>st\<close> comes from \<open>st0\<close> by appending the items \<open>new\<close>, whose identifiers
  are new to \<open>st0\<close> and to one another, and each of which has one source.
\<close>

definition grows :: "state \<Rightarrow> item list \<Rightarrow> state \<Rightarrow> bool" where
  "grows st0 new st \<longleftrightarrow>
     merged st = merged st0 @ map item_dict new
     \<and> seen st = seen st0 \<union> set (map i_id new)
     \<and> distinct (map i_id new)
     \<and> set (map i_id new) \<inter> seen st0 = {}
     \<and> list_all (\<lambda>it. length (i_sources it) = 1) new"

text \<open>The items the two scripts build in the small world.\<close>

definition demo_item :: "string \<Rightarrow> string \<Rightarrow> string \<Rightarrow> string \<Rightarrow> string \<Rightarrow> string \<Rightarrow> item" where
  "demo_item ident date_str name vendor kind link =
     \<lparr>i_id = ident, i_date = date_str, i_name = name, i_vendor = vendor, i_type = kind,
      i_summary = PStr [],
      i_sources = [[(''title'', PStr (vendor @ '' source'')), (''url'', PStr link)]],
      i_impact = 3, i_risk = 3, i_audience = ''dev'', i_tags = []\<rparr>"

definition item_foo1 :: item where
  "item_foo1 = demo_item ''2024-01-01-acme-foo'' ''2024-01-01'' ''Foo!'' ''Acme'' ''upgrade''
                 ''https://acme.example/agent/1''"
definition item_foo2 :: item where
  "item_foo2 = demo_item ''2024-01-01-acme-foo'' ''2024-01-01'' ''Foo?'' ''Acme'' ''upgrade''
                 ''https://acme.example/agent/2''"
definition item_untitled :: item where
  "item_untitled = demo_item ''2024-01-02-acme-'' ''2024-01-02'' [] ''Acme'' ''upgrade''
                 ''https://acme.example/agent/3''"
definition item_bolt :: item where
  "item_bolt = demo_item ''2024-01-01-bolt-bolt-agent-ga'' ''2024-01-01'' ''Bolt agent GA'' ''Bolt''
                 ''launch'' ''https://bolt.example/1''"



section \<open>Properties\<close>

subsection \<open>The classifier\<close>

lemma classify_deprecation_first:
  "str_in ''deprecat'' (lower env text) \<or> str_in ''sunset'' (lower env text)
   \<Longrightarrow> classify env text = ''deprecation''"
  by (simp add: classify_def)

lemma classify_wf_pricing_last:
  "str_in ''pricing'' (lower env text) \<or> str_in ''$'' (lower env text) \<or> str_in ''price'' (lower env text)
   \<Longrightarrow> classify_wf env text = ''pricing''"
  by (simp add: classify_wf_def)

text \<open>
  C1. The claim: the classifier labels by first match in the order deprecation, pricing,
  launch, upgrade, so that a text with both a deprecation and a pricing substring is
  labelled deprecation. The function \<open>classify\<close> of the incremental script does so
  (\<open>classify_deprecation_first\<close>). The inline classification of the stateless script
  does not: its last assignment wins, and on the text \<^verbatim>\<open>Deprecated pricing\<close> it
  answers pricing where \<open>classify\<close> answers deprecation.
\<close>

theorem classify_wf_pricing_over_deprecation:
  "classify_wf env ''Deprecated pricing'' = ''pricing''
   \<and> classify env ''Deprecated pricing'' = ''deprecation''"
  by (simp add: classify_wf_def classify_def lower_def is_ascii_def lower_char_def)

subsection \<open>The time window\<close>

lemma prepare_no_date:
  "pick_date env e = Inr None \<Longrightarrow> prepare env days now v kws e = Inr None"
  by (simp add: prepare_def Let_def in_window_def)

lemma entry_item_wf_no_date:
  "entry_date_wf env e = Inr None \<Longrightarrow> entry_item_wf env days now v kws e = Inr None"
  by (simp add: entry_item_wf_def Let_def in_window_def)

text \<open>
  C7. For every window size \<open>days\<close> and every reading \<open>now\<close> of the clock, an entry
  dated exactly \<open>days\<close> days before \<open>now\<close> is inside the window, an entry dated exactly
  \<open>days + 1\<close> days before \<open>now\<close> is outside, and an entry without a timestamp is
  outside.
\<close>

theorem in_window_boundary:
  "in_window now (Some (now - days * day_us)) days
   \<and> \<not> in_window now (Some (now - (days + 1) * day_us)) days
   \<and> \<not> in_window now None days"
  by (simp add: in_window_def timedelta_days_def day_us_def)

theorem in_window_boundary_witness:
  "in_window jan3 (Some (jan3 - 30 * day_us)) 30
   \<and> \<not> in_window jan3 (Some (jan3 - (30 + 1) * day_us)) 30
   \<and> \<not> in_window jan3 None 30"
  using in_window_boundary [of jan3 30] by simp

subsection \<open>Slugs\<close>

declare alnum_words.simps [simp del]

lemma alnum_dash [simp]: "\<not> alnum CHR ''-''"
  by (simp add: alnum_def)

lemma alnum_words_Nil [simp]: "alnum_words [] = []"
  by (subst alnum_words.simps) simp

lemma alnum_words_alnum:
  "alnum c \<Longrightarrow> alnum_words (c # cs) = (c # takeWhile alnum cs) # alnum_words (dropWhile alnum cs)"
  by (subst alnum_words.simps) simp

lemma alnum_words_other: "\<not> alnum c \<Longrightarrow> alnum_words (c # cs) = alnum_words cs"
  by (subst alnum_words.simps, subst (2) alnum_words.simps) simp

lemma alnum_words_dropWhile: "alnum_words (dropWhile (\<lambda>x. \<not> alnum x) s) = alnum_words s"
  by (induction s) (simp_all add: alnum_words_other)

lemma alnum_words_nonempty: "w \<in> set (alnum_words s) \<Longrightarrow> w \<noteq> []"
proof (induction s arbitrary: w rule: alnum_words.induct)
  case (1 s)
  show ?case
  proof (cases "dropWhile (\<lambda>x. \<not> alnum x) s")
    case Nil
    with "1.prems" show ?thesis by (subst (asm) alnum_words.simps) simp
  next
    case (Cons c cs)
    then have c: "alnum c" by (metis hd_dropWhile list.sel(1) list.distinct(1))
    from "1.prems" Cons c have "w = c # takeWhile alnum cs \<or> w \<in> set (alnum_words (dropWhile alnum cs))"
      by (subst (asm) alnum_words.simps) auto
    with "1.IH" [OF Cons] show ?thesis by auto
  qed
qed

lemma join_dash_Cons: "join_dash ((c # w) # ws) = c # join_dash (w # ws)"
  by (cases ws) simp_all

lemma join_dash_single: "join_dash ([c] # ws) = (if ws = [] then [c] else c # CHR ''-'' # join_dash ws)"
  by (cases ws) simp_all

lemma join_dash_empty: "(\<And>w. w \<in> set ws \<Longrightarrow> w \<noteq> []) \<Longrightarrow> join_dash ws = [] \<longleftrightarrow> ws = []"
  by (cases ws rule: join_dash.cases) auto

lemma lstrip_id:
  "u = [] \<or> alnum (hd u) \<Longrightarrow> dropWhile (\<lambda>c. c = CHR ''-'') (re_sub_dash u) = re_sub_dash u"
  by (cases u) auto

lemma dropWhile_other_start:
  "dropWhile (\<lambda>x. \<not> alnum x) s = [] \<or> alnum (hd (dropWhile (\<lambda>x. \<not> alnum x) s))"
  by (metis hd_dropWhile)

lemma lstrip_re_sub:
  "dropWhile (\<lambda>c. c = CHR ''-'') (re_sub_dash s) = re_sub_dash (dropWhile (\<lambda>x. \<not> alnum x) s)"
proof (cases s)
  case Nil then show ?thesis by simp
next
  case (Cons c cs)
  show ?thesis
  proof (cases "alnum c")
    case True
    then have "c \<noteq> CHR ''-''" by auto
    with True Cons show ?thesis by simp
  next
    case False
    with Cons show ?thesis
      using lstrip_id [OF dropWhile_other_start [of cs]] by simp
  qed
qed

lemma rstrip_Cons:
  "rstrip_dash (c # x)
   = (if c = CHR ''-'' \<and> rstrip_dash x = [] then [] else c # rstrip_dash x)"
  by (auto simp: rstrip_dash_def dropWhile_append)

lemma rstrip_Nil [simp]: "rstrip_dash [] = []"
  by (simp add: rstrip_dash_def)

lemma rstrip_re_sub:
  "rstrip_dash (re_sub_dash s)
   = (if s \<noteq> [] \<and> \<not> alnum (hd s)
      then (if alnum_words s = [] then [] else CHR ''-'' # join_dash (alnum_words s))
      else join_dash (alnum_words s))"
proof (induction s rule: re_sub_dash.induct)
  case 1
  then show ?case by simp
next
  case (2 c cs)
  show ?case
  proof (cases "alnum c")
    case True
    then have ne: "c \<noteq> CHR ''-''" by auto
    note IH = "2.IH"(1) [OF True]
    have step: "rstrip_dash (re_sub_dash (c # cs)) = c # rstrip_dash (re_sub_dash cs)"
      using True ne by (simp add: rstrip_Cons)
    show ?thesis
    proof (cases cs)
      case Nil
      with True step show ?thesis by (simp add: alnum_words_alnum)
    next
      case (Cons x xs)
      show ?thesis
      proof (cases "alnum x")
        case ax: True
        have "alnum_words (c # cs) = (c # hd (alnum_words cs)) # tl (alnum_words cs)"
          using True ax Cons by (simp add: alnum_words_alnum)
        moreover have "alnum_words cs \<noteq> []"
          using ax Cons by (simp add: alnum_words_alnum)
        ultimately have "join_dash (alnum_words (c # cs)) = c # join_dash (alnum_words cs)"
          by (metis join_dash_Cons list.collapse)
        with step IH ax Cons True show ?thesis by simp
      next
        case False
        have "alnum_words (c # cs) = [c] # alnum_words cs"
          using True False Cons by (simp add: alnum_words_alnum alnum_words_other)
        with step IH False Cons True show ?thesis
          by (simp add: join_dash_single)
      qed
    qed
  next
    case False
    let ?u = "dropWhile (\<lambda>x. \<not> alnum x) cs"
    have IH: "rstrip_dash (re_sub_dash ?u) = join_dash (alnum_words ?u)"
      using "2.IH"(2) [OF False] dropWhile_other_start [of cs] by auto
    have w: "alnum_words (c # cs) = alnum_words ?u"
      using False by (simp add: alnum_words_other alnum_words_dropWhile)
    have e: "join_dash (alnum_words ?u) = [] \<longleftrightarrow> alnum_words ?u = []"
      by (rule join_dash_empty) (rule alnum_words_nonempty)
    have "rstrip_dash (re_sub_dash (c # cs))
          = (if rstrip_dash (re_sub_dash ?u) = [] then [] else CHR ''-'' # rstrip_dash (re_sub_dash ?u))"
      using False by (simp add: rstrip_Cons)
    with IH w e False show ?thesis
      by simp
  qed
qed

lemma strip_re_sub: "strip_dash (re_sub_dash s) = join_dash (alnum_words s)"
proof -
  let ?u = "dropWhile (\<lambda>x. \<not> alnum x) s"
  have "strip_dash (re_sub_dash s) = rstrip_dash (re_sub_dash ?u)"
    by (simp add: strip_dash_def lstrip_re_sub)
  also have "\<dots> = join_dash (alnum_words ?u)"
    using rstrip_re_sub [of ?u] dropWhile_other_start [of s] by auto
  finally show ?thesis by (simp add: alnum_words_dropWhile)
qed

subsection \<open>Identifiers\<close>

text \<open>
  C4, as the claim states it. The specification's identifier slugifies and caps both
  the vendor and the title. The stateless script only lower-cases the vendor: the
  blank of \<^verbatim>\<open>Acme Corp\<close> stays in the identifier. The incremental script slugifies the
  vendor but does not cap it: a vendor of 51 letters keeps them all.
\<close>

theorem id_not_spec_id:
  "item_id_wf demo_env ''2024-01-01'' ''Acme Corp'' ''Foo!'' = ''2024-01-01-acme corp-foo''
   \<and> spec_id demo_env 40 ''2024-01-01'' ''Acme Corp'' ''Foo!'' = ''2024-01-01-acme-corp-foo''
   \<and> safe_id demo_env ''2024-01-01'' ''aaaaaaaaaaaaaaaaaaaaaaaaaaaaaaaaaaaaaaaaaaaaaaaaaaa'' ''Foo!''
       = ''2024-01-01-aaaaaaaaaaaaaaaaaaaaaaaaaaaaaaaaaaaaaaaaaaaaaaaaaaa-foo''
   \<and> spec_id demo_env 50 ''2024-01-01'' ''aaaaaaaaaaaaaaaaaaaaaaaaaaaaaaaaaaaaaaaaaaaaaaaaaaa'' ''Foo!''
       = ''2024-01-01-aaaaaaaaaaaaaaaaaaaaaaaaaaaaaaaaaaaaaaaaaaaaaaaaaa-foo''"
  by (simp add: item_id_wf_def safe_id_def spec_id_def spec_slugify_def strip_dash_def
        rstrip_dash_def lower_def is_ascii_def lower_char_def alnum_words_alnum alnum_words_other alnum_def)

text \<open>
  C4, amended. The identifier is a function of the date string, the vendor and the
  title alone. In the incremental script it is the date, the slug of the vendor and the
  slug of the title cut to 50 characters, joined by dashes, where the slug of a text is
  its lower-cased alphanumeric words joined by single dashes; the slug of the vendor is
  not capped, so the identifier is the specification's whenever that slug has at most 50
  characters. In the stateless script it is the date, the lower-cased vendor as it
  stands, and the slug of the title cut to 40 characters.
\<close>

theorem id_formula:
  "safe_id env date_str vendor title
     = date_str @ ''-'' @ join_dash (alnum_words (lower env vendor)) @ ''-''
         @ take 50 (join_dash (alnum_words (lower env title)))
   \<and> (length (join_dash (alnum_words (lower env vendor))) \<le> 50
        \<longrightarrow> safe_id env date_str vendor title = spec_id env 50 date_str vendor title)
   \<and> item_id_wf env date_str vendor title
     = date_str @ ''-'' @ lower env vendor @ ''-''
         @ take 40 (join_dash (alnum_words (lower env title)))"
  by (simp add: safe_id_def item_id_wf_def strip_re_sub spec_id_def spec_slugify_def)

theorem id_formula_witness:
  "safe_id demo_env ''2024-01-01'' ''Acme Corp.'' ''Hello,  World!''
     = ''2024-01-01-acme-corp-hello-world''
   \<and> length (join_dash (alnum_words (lower demo_env ''Acme Corp.''))) \<le> 50
   \<and> safe_id demo_env ''2024-01-01'' ''Acme Corp.'' ''Hello,  World!''
     = spec_id demo_env 50 ''2024-01-01'' ''Acme Corp.'' ''Hello,  World!''
   \<and> item_id_wf demo_env ''2024-01-01'' ''Acme Corp.'' ''Hello,  World!''
     = ''2024-01-01-acme corp.-hello-world''"
  using id_formula [where env = demo_env and date_str = "''2024-01-01''" and vendor = "''Acme Corp.''"
      and title = "''Hello,  World!''"]
  by (simp add: spec_id_def spec_slugify_def lower_def is_ascii_def lower_char_def alnum_words_alnum
        alnum_words_other alnum_def)

subsection \<open>Timestamps\<close>




subsection \<open>The prior snapshot\<close>

lemma load_existing_returns: "\<exists>v. load_existing env path = Inr v"
  by (auto simp: load_existing_def split: sum.splits)

lemma load_existing_empty_history:
  "path = [] \<or> files env path = Missing \<or> files env path = Unreadable
   \<or> files env path = Malformed
   \<or> files env path = Holds PNone \<or> files env path = Holds (PBool b)
   \<or> files env path = Holds (PInt n) \<or> files env path = Holds (PStr s)
   \<or> (files env path = Holds (PDict d) \<and> map_of d ''items'' = None)
   \<Longrightarrow> load_existing env path = Inr (PList [])"
  by (auto simp: load_existing_def dict_get_default_def)

lemma load_existing_list:
  "path \<noteq> [] \<Longrightarrow> files env path = Holds (PList xs)
   \<Longrightarrow> load_existing env path = Inr (PList xs)"
  by (simp add: load_existing_def)

lemma load_existing_items:
  "path \<noteq> [] \<Longrightarrow> files env path = Holds (PDict d) \<Longrightarrow> map_of d ''items'' = Some v
   \<Longrightarrow> load_existing env path = Inr v"
  by (simp add: load_existing_def dict_get_default_def)

text \<open>
  C9. The claim: whatever the path holds, the loader returns the empty history unless
  the contents are a list or an object whose \<^verbatim>\<open>items\<close> field holds one, and the run
  goes on. The loader never raises (\<open>load_existing_returns\<close>) and returns the empty
  list for an empty, missing, unreadable or malformed path, for a JSON scalar and for
  an object without \<^verbatim>\<open>items\<close> (\<open>load_existing_empty_history\<close>). But it returns the
  \<^verbatim>\<open>items\<close> field of an object as it is: on the file \<^verbatim>\<open>{"items": 5}\<close> it returns
  \<^verbatim>\<open>5\<close>, and the first loop of \<^verbatim>\<open>main\<close> over it raises \<^verbatim>\<open>TypeError\<close>.
\<close>

theorem load_existing_items_not_list:
  "load_existing demo_env ''five.json'' = Inr (PInt 5)
   \<and> main demo_env (demo_args ''five.json'') [] = Inl TypeError"
  by (simp add: load_existing_def demo_env_def dict_get_default_def main_def collect_def
        demo_args_def)

subsection \<open>Loops of the incremental script\<close>

lemma for_each_invariant:
  assumes "\<And>x s s'. P s \<Longrightarrow> body x s = Inr s' \<Longrightarrow> P s'"
    and "P s" and "for_each body xs s = Inr s'"
  shows "P s'"
  using assms(2,3)
proof (induction xs arbitrary: s)
  case Nil
  then show ?case by simp
next
  case (Cons x xs)
  then show ?case
    by (auto split: sum.splits intro: assms(1))
qed

lemma bindE_Inr: "bindE m f = Inr y \<longleftrightarrow> (\<exists>x. m = Inr x \<and> f x = Inr y)"
  by (cases m) auto

lemma build_item_fields:
  "build_item env v e c = Inr it \<Longrightarrow>
     i_id it = c_id c \<and> i_date it = c_date c
     \<and> i_sources it = [[(''title'', PStr (v_name v @ '' source'')), (''url'', c_link c)]]"
  by (auto simp: build_item_def bindE_Inr)

lemma process_entry_cases:
  assumes "process_entry env days v kws ev st = Inr st'"
  shows "(seen st' = seen st \<and> merged st' = merged st)
       \<or> (\<exists>e c it. ev = PDict e \<and> prepare env days (clock env (tick st)) v kws e = Inr (Some c)
             \<and> build_item env v e c = Inr it \<and> c_id c \<notin> seen st
             \<and> seen st' = insert (i_id it) (seen st) \<and> merged st' = merged st @ [item_dict it])"
  using assms
  by (auto simp: process_entry_def build_item_fields split: pyval.splits sum.splits option.splits if_splits)

lemma grows_refl: "grows st [] st"
  by (simp add: grows_def)

lemma process_entry_grows:
  assumes "grows st0 new st" and "process_entry env days v kws ev st = Inr st'"
  shows "\<exists>new'. grows st0 new' st'"
proof -
  from process_entry_cases [OF assms(2)] show ?thesis
  proof
    assume "seen st' = seen st \<and> merged st' = merged st"
    with assms(1) have "grows st0 new st'" by (simp add: grows_def)
    then show ?thesis ..
  next
    assume "\<exists>e c it. ev = PDict e \<and> prepare env days (clock env (tick st)) v kws e = Inr (Some c)
             \<and> build_item env v e c = Inr it \<and> c_id c \<notin> seen st
             \<and> seen st' = insert (i_id it) (seen st) \<and> merged st' = merged st @ [item_dict it]"
    then obtain e c it where b: "build_item env v e c = Inr it" and n: "c_id c \<notin> seen st"
      and s: "seen st' = insert (i_id it) (seen st)" and m: "merged st' = merged st @ [item_dict it]"
      by blast
    from build_item_fields [OF b] have f: "i_id it = c_id c" "length (i_sources it) = 1" by simp_all
    with assms(1) n s m have "grows st0 (new @ [it]) st'"
      by (auto simp: grows_def)
    then show ?thesis ..
  qed
qed

lemma process_feed_grows:
  assumes "\<exists>new. grows st0 new st" and "process_feed env days v kws url st = Inr st'"
  shows "\<exists>new'. grows st0 new' st'"
proof -
  from assms(2) obtain es where "for_each (process_entry env days v kws) es st = Inr st'"
    by (auto simp: process_feed_def bindE_Inr)
  then show ?thesis
    by (rule for_each_invariant [where P = "\<lambda>s. \<exists>new. grows st0 new s", rotated 2])
       (use assms(1) process_entry_grows in blast)+
qed

lemma process_vendor_grows:
  assumes "\<exists>new. grows st0 new st" and "process_vendor env days v st = Inr st'"
  shows "\<exists>new'. grows st0 new' st'"
  using assms(2) unfolding process_vendor_def
  by (rule for_each_invariant [where P = "\<lambda>s. \<exists>new. grows st0 new s", rotated 2])
     (use assms(1) process_feed_grows in blast)+

lemma collect_grows:
  assumes "prior_items env a = Inr prior" and "collect env a vendors = Inr st"
  shows "\<exists>seen0 new. seen_of prior = Inr seen0
           \<and> grows \<lparr>seen = seen0, merged = prior, tick = 0\<rparr> new st"
proof -
  from assms obtain seen0 where s: "seen_of prior = Inr seen0"
    and f: "for_each (process_vendor env (a_days a)) vendors \<lparr>seen = seen0, merged = prior, tick = 0\<rparr> = Inr st"
    by (auto simp: prior_items_def collect_def bindE_Inr)
  let ?st0 = "\<lparr>seen = seen0, merged = prior, tick = 0\<rparr>"
  have "\<exists>new. grows ?st0 new st"
    using f
    by (rule for_each_invariant [where P = "\<lambda>s. \<exists>new. grows ?st0 new s", rotated 2])
       (use grows_refl process_vendor_grows in blast)+
  with s show ?thesis by blast
qed

lemma strs_of_mem: "s \<in> set (strs_of vs) \<longleftrightarrow> PStr s \<in> set vs"
  by (induction vs rule: strs_of.induct) auto

lemma seen_of_mem: "seen_of ds = Inr S \<Longrightarrow> s \<in> S \<longleftrightarrow> PStr s \<in> set (map id_key ds)"
  by (auto simp: seen_of_def Let_def strs_of_mem split: if_splits)

lemma id_key_item_dict [simp]: "id_key (item_dict it) = PStr (i_id it)"
  by (simp add: id_key_def item_dict_def dict_get_def py_or_def)

lemma key_date_item_dict [simp]: "key_date (item_dict it) = PStr (i_date it)"
  by (simp add: key_date_def item_dict_def dict_get_def py_or_def)

subsection \<open>Sorting and truncation\<close>

lemma sorted_desc_mset [simp]: "mset (sorted_desc g xs) = mset xs"
  by (simp add: sorted_desc_def)

lemma sorted_desc_sorted: "sorted_wrt (\<lambda>a b. g b \<le> g a) (sorted_desc g xs)"
proof -
  have "sorted (map g (sort_key g (rev xs)))"
    by (rule sorted_sort_key)
  then have "sorted_wrt (\<lambda>a b. g a \<le> g b) (sort_key g (rev xs))"
    by (simp add: sorted_wrt_map)
  then show ?thesis
    by (simp add: sorted_desc_def sorted_wrt_rev)
qed

lemma sorted_desc_stable:
  "filter (\<lambda>x. g x = k) (sorted_desc g xs) = filter (\<lambda>x. g x = k) xs"
  by (simp add: sorted_desc_def rev_filter [symmetric] sort_key_stable)

lemma short_sorted_wrt: "length xs \<le> 1 \<Longrightarrow> sorted_wrt R xs"
  by (cases xs) auto

lemma time_tuple_inj: "time_tuple s = time_tuple t \<Longrightarrow> s = t"
  by (cases s; cases t) simp

lemma lt_c_comparable_sym: "isl (lt_c a b) \<Longrightarrow> isl (lt_c b a)"
  by (induction a b rule: lt_c.induct) (auto split: if_splits)

lemma lt_c_asym: "lt_c a b = Inr True \<Longrightarrow> lt_c b a = Inr False"
  by (induction a b rule: lt_c.induct) (auto split: if_splits)

lemma lt_c_total: "lt_c a b = Inr False \<Longrightarrow> lt_c b a = Inr False \<Longrightarrow> a = b"
  by (induction a b rule: lt_c.induct) (auto split: if_splits dest: time_tuple_inj)

lemma lt_c_irrefl: "lt_c a a \<noteq> Inr True"
  using lt_c_asym by fastforce

lemma lt_c_trans: "lt_c a b = Inr True \<Longrightarrow> lt_c b c = Inr True \<Longrightarrow> lt_c a c = Inr True"
proof (induction a arbitrary: b c rule: measure_induct_rule [of size])
  case (less a)
  show ?case
  proof (cases a)
    case (PList xs)
    then obtain ys zs where b: "b = PList ys" and c: "c = PList zs"
      using less.prems by (cases b; cases c; cases xs) auto
    show ?thesis
    proof (cases xs)
      case Nil
      with less.prems PList b c show ?thesis by (cases ys; cases zs) auto
    next
      case (Cons x xs')
      with less.prems PList b c obtain y ys' z zs' where ys: "ys = y # ys'" and zs: "zs = z # zs'"
        by (cases ys; cases zs) auto
      have sx: "size x < size a" "size (PList xs') < size a"
        using PList Cons by simp_all
      show ?thesis
        using less.prems less.IH [OF sx(1), of y z] less.IH [OF sx(2), of "PList ys'" "PList zs'"]
          lt_c_asym [of x y] lt_c_irrefl [of x]
        unfolding PList b c Cons ys zs
        by (auto split: if_splits)
    qed
  qed (use less.prems in \<open>cases b; cases c; auto\<close>)+
qed

lemma insort_lt_rank:
  "(\<And>y. y \<in> set ys \<Longrightarrow> lt y x \<longleftrightarrow> r y < (r x :: nat)) \<Longrightarrow> insort_lt lt x ys = insort_key r x ys"
  by (induction ys) (auto simp: not_less)

lemma sort_lt_rank:
  "(\<And>x y. x \<in> set xs \<Longrightarrow> y \<in> set xs \<Longrightarrow> lt y x \<longleftrightarrow> r y < (r x :: nat)) \<Longrightarrow> sort_lt lt xs = sort_key r xs"
proof (induction xs)
  case Nil
  then show ?case by (simp add: sort_lt_def)
next
  case (Cons x xs)
  then have "sort_lt lt xs = sort_key r xs" by simp
  moreover have "insort_lt lt x (sort_key r xs) = insort_key r x (sort_key r xs)"
    by (rule insort_lt_rank) (use Cons.prems in auto)
  ultimately show ?case by (simp add: sort_lt_def)
qed

lemma py_lt_cases: "\<not> isl (py_lt a b) \<Longrightarrow> py_lt a b = Inr True \<or> py_lt a b = Inr False"
  by (cases "py_lt a b") auto

lemma rank_less:
  assumes "finite S" and "a \<in> S" and "b \<in> S"
    and cmp: "\<And>x y. x \<in> S \<Longrightarrow> y \<in> S \<Longrightarrow> \<not> isl (py_lt x y)"
  shows "py_lt a b = Inr True \<longleftrightarrow> rank S a < rank S b"
proof
  assume l: "py_lt a b = Inr True"
  have "{c \<in> S. py_lt c a = Inr True} \<subset> {c \<in> S. py_lt c b = Inr True}"
  proof
    show "{c \<in> S. py_lt c a = Inr True} \<subseteq> {c \<in> S. py_lt c b = Inr True}"
      using l lt_c_trans by (auto simp: py_lt_def)
    have "a \<in> {c \<in> S. py_lt c b = Inr True}" using l assms(2) by simp
    moreover have "a \<notin> {c \<in> S. py_lt c a = Inr True}"
      using lt_c_irrefl by (auto simp: py_lt_def)
    ultimately show "{c \<in> S. py_lt c a = Inr True} \<noteq> {c \<in> S. py_lt c b = Inr True}" by blast
  qed
  then show "rank S a < rank S b"
    unfolding rank_def using assms(1) by (intro psubset_card_mono) auto
next
  assume r: "rank S a < rank S b"
  show "py_lt a b = Inr True"
  proof (rule ccontr)
    assume "py_lt a b \<noteq> Inr True"
    then have nab: "py_lt a b = Inr False"
      using py_lt_cases [OF cmp [OF assms(2,3)]] by simp
    have "{c \<in> S. py_lt c b = Inr True} \<subseteq> {c \<in> S. py_lt c a = Inr True}"
    proof clarify
      fix c assume c: "c \<in> S" "py_lt c b = Inr True"
      show "py_lt c a = Inr True"
      proof (rule ccontr)
        assume "py_lt c a \<noteq> Inr True"
        then have nca: "py_lt c a = Inr False"
          using py_lt_cases [OF cmp [OF c(1) assms(2)]] by simp
        from py_lt_cases [OF cmp [OF assms(2) c(1)]] show False
        proof
          assume "py_lt a c = Inr True"
          with c(2) have "py_lt a b = Inr True" using lt_c_trans by (auto simp: py_lt_def)
          with nab show False by simp
        next
          assume "py_lt a c = Inr False"
          with nca have "canon a = canon c" using lt_c_total by (auto simp: py_lt_def)
          with c(2) nab show False by (simp add: py_lt_def)
        qed
      qed
    qed
    then have "rank S b \<le> rank S a"
      unfolding rank_def using assms(1) by (intro card_mono) auto
    with r show False by simp
  qed
qed

lemma rank_eq:
  assumes "finite S" and "a \<in> S" and "b \<in> S"
    and cmp: "\<And>x y. x \<in> S \<Longrightarrow> y \<in> S \<Longrightarrow> \<not> isl (py_lt x y)"
  shows "rank S a = rank S b \<longleftrightarrow> py_eq a b"
proof
  assume "rank S a = rank S b"
  then have "py_lt a b \<noteq> Inr True" "py_lt b a \<noteq> Inr True"
    using rank_less [OF assms(1,2,3) cmp] rank_less [OF assms(1,3,2) cmp] by auto
  then have "py_lt a b = Inr False" "py_lt b a = Inr False"
    using py_lt_cases [OF cmp [OF assms(2,3)]] py_lt_cases [OF cmp [OF assms(3,2)]] by auto
  then show "py_eq a b"
    using lt_c_total by (auto simp: py_lt_def py_eq_def)
next
  assume "py_eq a b"
  then show "rank S a = rank S b"
    by (simp add: rank_def py_eq_def py_lt_def)
qed

lemma insort_lt_mset: "mset (insort_lt lt x ys) = add_mset x (mset ys)"
  by (induction ys) auto

lemma sort_lt_mset: "mset (sort_lt lt xs) = mset xs"
  by (induction xs) (simp_all add: sort_lt_def insort_lt_mset)

lemma py_sort_desc_mset: "py_sort_desc key xs = Inr ys \<Longrightarrow> mset ys = mset xs"
  by (auto simp: py_sort_desc_def sort_lt_mset split: if_splits)

lemma py_sort_desc_rank:
  assumes "py_sort_desc key xs = Inr ys" and "\<not> length xs \<le> 1"
  shows "ys = rev (sort_key (\<lambda>x. rank (key ` set xs) (key x)) (rev xs))
         \<and> (\<forall>x \<in> set xs. \<forall>y \<in> set xs.
              (py_lt (key x) (key y) = Inr False
                 \<longleftrightarrow> rank (key ` set xs) (key y) \<le> rank (key ` set xs) (key x))
              \<and> (py_eq (key x) (key y)
                 \<longleftrightarrow> rank (key ` set xs) (key x) = rank (key ` set xs) (key y)))"
proof -
  let ?S = "key ` set xs"
  let ?r = "\<lambda>x. rank ?S (key x)"
  from assms have all: "list_all (\<lambda>x. list_all (\<lambda>y. \<not> isl (py_lt (key x) (key y))) xs) xs"
    and ys: "ys = rev (sort_lt (\<lambda>a b. py_lt (key a) (key b) = Inr True) (rev xs))"
    by (auto simp: py_sort_desc_def split: if_splits)
  have cmp: "\<not> isl (py_lt a b)" if "a \<in> ?S" "b \<in> ?S" for a b
    using all that by (auto simp: list_all_iff)
  have fin: "finite ?S" by simp
  have less: "py_lt (key x) (key y) = Inr True \<longleftrightarrow> ?r x < ?r y" if "x \<in> set xs" "y \<in> set xs" for x y
    using rank_less [OF fin _ _ cmp, of "key x" "key y"] that by blast
  have eq: "?r x = ?r y \<longleftrightarrow> py_eq (key x) (key y)" if "x \<in> set xs" "y \<in> set xs" for x y
    using rank_eq [OF fin _ _ cmp, of "key x" "key y"] that by blast
  have "sort_lt (\<lambda>a b. py_lt (key a) (key b) = Inr True) (rev xs) = sort_key ?r (rev xs)"
    by (rule sort_lt_rank) (use less in auto)
  with ys have 1: "ys = rev (sort_key ?r (rev xs))" by simp
  have 2: "py_lt (key x) (key y) = Inr False \<longleftrightarrow> ?r y \<le> ?r x" if "x \<in> set xs" "y \<in> set xs" for x y
    using less [OF that] py_lt_cases [OF cmp, of "key x" "key y"] that by auto
  from 1 2 eq show ?thesis by blast
qed

lemma py_sort_desc_sorted:
  assumes "py_sort_desc key xs = Inr ys"
  shows "sorted_wrt (\<lambda>a b. py_lt (key a) (key b) = Inr False) ys"
proof (cases "length xs \<le> 1")
  case True
  with assms show ?thesis by (simp add: py_sort_desc_def short_sorted_wrt)
next
  case False
  let ?r = "\<lambda>x. rank (key ` set xs) (key x)"
  note r = py_sort_desc_rank [OF assms False]
  have ys: "ys = rev (sort_key ?r (rev xs))"
    using r by (rule conjunct1)
  have le: "py_lt (key x) (key y) = Inr False" if "x \<in> set xs" "y \<in> set xs" "?r y \<le> ?r x" for x y
    using r [THEN conjunct2, rule_format, OF that(1,2)] that(3) by simp
  have "sorted (map ?r (sort_key ?r (rev xs)))"
    by (rule sorted_sort_key)
  then have "sorted_wrt (\<lambda>a b. ?r a \<le> ?r b) (sort_key ?r (rev xs))"
    by (simp only: sorted_wrt_map sorted_map)
  then have s: "sorted_wrt (\<lambda>a b. ?r b \<le> ?r a) ys"
    unfolding ys by (simp only: sorted_wrt_rev)
  have set: "set ys = set xs"
    using py_sort_desc_mset [OF assms] by (rule mset_eq_setD)
  show ?thesis
    by (rule sorted_wrt_mono_rel [OF _ s]) (use le set in blast)
qed

lemma py_sort_desc_stable:
  assumes "py_sort_desc key xs = Inr ys"
  shows "filter (\<lambda>x. py_eq (key x) d) ys = filter (\<lambda>x. py_eq (key x) d) xs"
proof (cases "length xs \<le> 1")
  case True
  with assms show ?thesis by (simp add: py_sort_desc_def)
next
  case False
  let ?r = "\<lambda>x. rank (key ` set xs) (key x)"
  note r = py_sort_desc_rank [OF assms False]
  have set: "set ys = set xs"
    using py_sort_desc_mset [OF assms] by (rule mset_eq_setD)
  have req: "py_eq (key x) (key y) \<longleftrightarrow> ?r x = ?r y" if "x \<in> set xs" "y \<in> set xs" for x y
    using r [THEN conjunct2, rule_format, OF that] by simp
  show ?thesis
  proof (cases "\<exists>z \<in> set xs. py_eq (key z) d")
    case True
    then obtain z where z: "z \<in> set xs" "py_eq (key z) d" by blast
    have e: "py_eq (key x) d \<longleftrightarrow> ?r x = ?r z" if "x \<in> set xs" for x
    proof -
      have "py_eq (key x) d \<longleftrightarrow> py_eq (key x) (key z)"
        using z(2) by (auto simp: py_eq_def)
      also have "\<dots> \<longleftrightarrow> ?r x = ?r z"
        using req [OF that z(1)] .
      finally show ?thesis .
    qed
    have "filter (\<lambda>x. py_eq (key x) d) ys = filter (\<lambda>x. ?r x = ?r z) ys"
      using e set by (intro filter_cong) auto
    also have "\<dots> = filter (\<lambda>x. ?r x = ?r z) xs"
      using r by (simp add: rev_filter [symmetric] sort_key_stable)
    also have "\<dots> = filter (\<lambda>x. py_eq (key x) d) xs"
      using e by (intro filter_cong) auto
    finally show ?thesis .
  next
    case False
    then have "filter (\<lambda>x. py_eq (key x) d) ys = []" "filter (\<lambda>x. py_eq (key x) d) xs = []"
      using set by (auto simp: filter_empty_conv)
    then show ?thesis by simp
  qed
qed

lemma py_take_prefix: "prefix (py_take n xs) xs"
  by (simp add: py_take_def take_is_prefix)


lemma prefix_sorted_wrt: "prefix xs ys \<Longrightarrow> sorted_wrt R ys \<Longrightarrow> sorted_wrt R xs"
  by (auto simp: prefix_def sorted_wrt_append)

lemma prefix_distinct_map: "prefix xs ys \<Longrightarrow> distinct (map f ys) \<Longrightarrow> distinct (map f xs)"
  by (auto simp: prefix_def)

lemma main_parts:
  assumes "main env a vendors = Inr out"
  shows "\<exists>st sorted_items. collect env a vendors = Inr st
           \<and> py_sort_desc key_date (merged st) = Inr sorted_items
           \<and> out = py_take (a_top a) sorted_items"
  using assms by (auto simp: main_def bindE_Inr)

lemma grows_ids_distinct:
  assumes "seen_of prior = Inr seen0"
    and "grows \<lparr>seen = seen0, merged = prior, tick = 0\<rparr> new st"
    and "distinct (map id_key prior)"
  shows "distinct (map id_key (merged st))"
proof -
  from assms(2) have m: "merged st = prior @ map item_dict new"
    and d: "distinct (map i_id new)" and n: "set (map i_id new) \<inter> seen0 = {}"
    by (simp_all add: grows_def)
  have k: "map id_key (merged st) = map id_key prior @ map (\<lambda>it. PStr (i_id it)) new"
    using m by simp
  have "distinct (map PStr (map i_id new))"
    using d by (subst distinct_map) (simp add: inj_on_def)
  then have d2: "distinct (map (\<lambda>it. PStr (i_id it)) new)"
    by (simp add: o_def)
  have "PStr (i_id it) \<notin> set (map id_key prior)" if "it \<in> set new" for it
  proof -
    from that n have "i_id it \<notin> seen0" by auto
    then show ?thesis using seen_of_mem [OF assms(1), of "i_id it"] by simp
  qed
  then have "set (map id_key prior) \<inter> set (map (\<lambda>it. PStr (i_id it)) new) = {}"
    by (auto simp: image_iff) metis
  with assms(3) d2 show ?thesis
    unfolding k by (simp only: distinct_append simp_thms)
qed

subsection \<open>The stateless script\<close>

lemma subseq_set: "subseq xs ys \<Longrightarrow> set xs \<subseteq> set ys"
  by (induction rule: list_emb.induct) auto

lemma sorted_wrt_subseq: "subseq xs ys \<Longrightarrow> sorted_wrt R ys \<Longrightarrow> sorted_wrt R xs"
proof (induction rule: list_emb.induct)
  case (list_emb_Nil ys)
  then show ?case by simp
next
  case (list_emb_Cons xs ys y)
  then show ?case by simp
next
  case (list_emb_Cons2 x y xs ys)
  then show ?case
    using subseq_set [of xs ys] by auto
qed

lemma dedup_subseq: "subseq (dedup S xs) xs"
  by (induction xs arbitrary: S) (auto simp: Let_def)

lemma dedup_keys:
  "distinct (map (\<lambda>it. (i_vendor it, i_name it)) (dedup S xs))
   \<and> set (map (\<lambda>it. (i_vendor it, i_name it)) (dedup S xs)) \<inter> S = {}"
proof (induction xs arbitrary: S)
  case Nil
  then show ?case by simp
next
  case (Cons x xs)
  show ?case
  proof (cases "(i_vendor x, i_name x) \<in> S")
    case True
    with Cons [of S] show ?thesis by simp
  next
    case False
    with Cons [of "insert (i_vendor x, i_name x) S"] show ?thesis
      by (auto simp: Let_def)
  qed
qed

lemma main_wf_parts:
  assumes "main_wf env a vendors = Inr out"
  shows "\<exists>st. collect_wf env a vendors = Inr st
           \<and> out = py_take (a_top a)
                     (dedup {} (sorted_desc (\<lambda>x. (i_date x, i_vendor x)) (items st)))"
  using assms by (auto simp: main_wf_def bindE_Inr)

lemma main_wf_subseq:
  assumes "collect_wf env a vendors = Inr st" and "main_wf env a vendors = Inr out"
  shows "subseq out (sorted_desc key_wf (items st))"
proof -
  from main_wf_parts [OF assms(2)] assms(1)
  have "out = py_take (a_top a) (dedup {} (sorted_desc key_wf (items st)))"
    by (auto simp: key_wf_def [abs_def])
  moreover have "subseq (py_take (a_top a) (dedup {} (sorted_desc key_wf (items st))))
                   (dedup {} (sorted_desc key_wf (items st)))"
    by (rule prefix_imp_subseq) (rule py_take_prefix)
  ultimately show ?thesis
    using dedup_subseq subseq_order.order_trans by metis
qed

lemma fst_le: "(a :: string \<times> string) \<le> b \<Longrightarrow> fst a \<le> fst b"
  by (auto simp: less_eq_prod_def)


lemma prepare_Some:
  assumes "prepare env days now v kws e = Inr (Some c)"
  shows "c_link c = entry_link e \<and> truthy (entry_link e) \<and> entry_title e = PStr (c_title c)
         \<and> c_title c \<noteq> []"
  using assms
  by (auto simp: prepare_def Let_def bindE_Inr split: if_splits pyval.splits)

lemma prepare_rejects:
  "\<not> truthy (entry_link e) \<or> \<not> truthy (entry_title e) \<Longrightarrow> prepare env days now v kws e = Inr None"
  by (auto simp: prepare_def Let_def)



lemma entry_item_wf_Some:
  assumes "entry_item_wf env days now v kws e = Inr (Some it)"
  shows "i_sources it = [[(''title'', PStr (v_name v @ '' source'')), (''url'', entry_link e)]]
         \<and> truthy (entry_link e) \<and> (\<exists>t. entry_title e = PStr t \<and> i_name it = take 120 t)"
  using assms
  by (cases "entry_title e")
     (auto simp: entry_item_wf_def Let_def bindE_Inr split: if_splits)


lemma entry_item_wf_rejects:
  "\<not> truthy (entry_link e) \<Longrightarrow> entry_item_wf env days now v kws e = Inr None"
  by (simp add: entry_item_wf_def Let_def)






subsection \<open>The runs of the small world\<close>

lemma match_kwsI: "k \<in> set kws \<Longrightarrow> str_in (lower env k) (lower env text) \<Longrightarrow> match_kws env text kws"
  by (auto simp: match_kws_def list_ex_iff)

lemma agent_in_kws: "''agent'' \<in> set (vendor_kws v)" "''agent'' \<in> set (vendor_kws_wf v)"
  by (simp_all add: vendor_kws_def vendor_kws_wf_def GLOBAL_KEYS_def KEYS_def)

lemma prepare_str:
  assumes "entry_title e = PStr t" "t \<noteq> []" "entry_link e = PStr l" "l \<noteq> []"
    and "pick_date env e = Inr (Some dt)" "in_window now (Some dt) days"
    and "entry_summary e = PStr sm" "match_kws env (t @ '' '' @ sm @ '' '' @ l) kws"
  shows "prepare env days now v kws e
         = Inr (Some \<lparr>c_title = t, c_link = PStr l, c_date = strftime_ymd env dt,
                       c_type = classify env (t @ '' '' @ sm @ '' '' @ l),
                       c_id = safe_id env (strftime_ymd env dt) (v_name v) t\<rparr>)"
  using assms by (simp add: prepare_def Let_def fmt_def)

lemma build_item_str:
  assumes "entry_summary e = PStr []"
  shows "build_item env v e c
         = Inr \<lparr>i_id = c_id c, i_date = c_date c, i_name = take 160 (c_title c),
                i_vendor = v_name v, i_type = c_type c,
                i_summary = PStr (html_summary env (c_link c)),
                i_sources = [[(''title'', PStr (v_name v @ '' source'')), (''url'', c_link c)]],
                i_impact = v_impact v, i_risk = v_risk v, i_audience = v_audience v,
                i_tags = []\<rparr>"
  using assms by (simp add: build_item_def item_summary_def)

lemma process_entry_str:
  assumes "\<And>n. prepare env days (clock env n) v kws e = Inr (Some c)"
    and "build_item env v e c = Inr it"
  shows "process_entry env days v kws (PDict e) st
         = (if c_id c \<in> seen st then Inr (st\<lparr>tick := Suc (tick st)\<rparr>)
            else Inr \<lparr>seen = insert (c_id c) (seen st), merged = merged st @ [item_dict it],
                       tick = Suc (tick st)\<rparr>)"
  using assms by (simp add: process_entry_def)

lemma process_entry_none:
  assumes "\<And>n. prepare env days (clock env n) v kws e = Inr None"
  shows "process_entry env days v kws (PDict e) st = Inr (st\<lparr>tick := Suc (tick st)\<rparr>)"
  using assms by (simp add: process_entry_def)

lemma entry_item_wf_str:
  assumes "entry_title e = PStr t" "entry_link e = PStr l" "l \<noteq> []"
    and "entry_date_wf env e = Inr (Some dt)" "in_window now (Some dt) days"
    and "entry_desc_wf e = PStr sm" "match_kws env (t @ '' '' @ sm @ '' '' @ l) kws"
    and "entry_summary e = PStr []"
  shows "entry_item_wf env days now v kws e
         = Inr (Some \<lparr>i_id = item_id_wf env (strftime_ymd env dt) (v_name v) t,
                i_date = strftime_ymd env dt, i_name = take 120 t,
                i_vendor = v_name v, i_type = classify_wf env (t @ '' '' @ sm @ '' '' @ l),
                i_summary = PStr (html_summary env (PStr l)),
                i_sources = [[(''title'', PStr (v_name v @ '' source'')), (''url'', PStr l)]],
                i_impact = v_impact v, i_risk = v_risk v, i_audience = v_audience v,
                i_tags = []\<rparr>)"
  using assms by (simp add: entry_item_wf_def Let_def fmt_def item_summary_def)

lemma process_entry_wf_str:
  assumes "\<And>n. entry_item_wf env days (clock env n) v kws e = Inr (Some it)"
  shows "process_entry_wf env days v kws (PDict e) st
         = Inr \<lparr>items = items st @ [it], tick_wf = Suc (tick_wf st)\<rparr>"
  using assms by (simp add: process_entry_wf_def)

lemmas entry_defs = entry_title_def entry_link_def entry_summary_def entry_desc_wf_def
  dict_get_def dict_get_default_def py_or_def pick_date_def entry_date_wf_def pick_date_wf_def
  date_keys_def norm_date_def demo_env_def

lemma foo1_fields:
  "entry_title entry_foo1 = PStr ''Foo!''"
  "entry_link entry_foo1 = PStr ''https://acme.example/agent/1''"
  "entry_summary entry_foo1 = PStr []" "pick_date demo_env entry_foo1 = Inr (Some jan1)"
  "entry_desc_wf entry_foo1 = PStr []" "entry_date_wf demo_env entry_foo1 = Inr (Some jan1)"
  by (simp_all add: entry_foo1_def entry_defs)

lemma foo2_fields:
  "entry_title entry_foo2 = PStr ''Foo?''"
  "entry_link entry_foo2 = PStr ''https://acme.example/agent/2''"
  "entry_summary entry_foo2 = PStr []" "pick_date demo_env entry_foo2 = Inr (Some jan1)"
  "entry_desc_wf entry_foo2 = PStr []" "entry_date_wf demo_env entry_foo2 = Inr (Some jan1)"
  by (simp_all add: entry_foo2_def entry_defs)

lemma untitled_fields:
  "entry_title entry_untitled = PStr []"
  "entry_link entry_untitled = PStr ''https://acme.example/agent/3''"
  "entry_summary entry_untitled = PStr []" "pick_date demo_env entry_untitled = Inr (Some jan2)"
  "entry_desc_wf entry_untitled = PStr []" "entry_date_wf demo_env entry_untitled = Inr (Some jan2)"
  by (simp_all add: entry_untitled_def entry_defs)

lemma bolt_fields:
  "entry_title entry_bolt = PStr ''Bolt agent GA''"
  "entry_link entry_bolt = PStr ''https://bolt.example/1''"
  "entry_summary entry_bolt = PStr []" "pick_date demo_env entry_bolt = Inr (Some jan1)"
  "entry_desc_wf entry_bolt = PStr []" "entry_date_wf demo_env entry_bolt = Inr (Some jan1)"
  by (simp_all add: entry_bolt_def entry_defs)

lemma demo_window: "in_window (clock demo_env n) (Some jan1) 30" "in_window (clock demo_env n) (Some jan2) 30"
  by (simp_all add: demo_env_def in_window_def timedelta_days_def day_us_def jan1_def jan2_def jan3_def)

lemma demo_strftime:
  "strftime_ymd demo_env jan1 = ''2024-01-01''" "strftime_ymd demo_env jan2 = ''2024-01-02''"
  "html_summary demo_env l = []"
  by (simp_all add: demo_env_def jan1_def jan2_def)

lemma demo_match:
  "match_kws env ''Foo!  https://acme.example/agent/1'' (vendor_kws v)"
  "match_kws env ''Foo?  https://acme.example/agent/2'' (vendor_kws v)"
  "match_kws env ''Bolt agent GA  https://bolt.example/1'' (vendor_kws v)"
  "match_kws env ''Foo!  https://acme.example/agent/1'' (vendor_kws_wf v)"
  "match_kws env ''Foo?  https://acme.example/agent/2'' (vendor_kws_wf v)"
  "match_kws env ''  https://acme.example/agent/3'' (vendor_kws_wf v)"
  "match_kws env ''Bolt agent GA  https://bolt.example/1'' (vendor_kws_wf v)"
  by (rule match_kwsI [OF agent_in_kws(1)] match_kwsI [OF agent_in_kws(2)],
      simp add: lower_def is_ascii_def lower_char_def)+

lemma demo_class:
  "classify env ''Foo!  https://acme.example/agent/1'' = ''upgrade''"
  "classify env ''Foo?  https://acme.example/agent/2'' = ''upgrade''"
  "classify env ''Bolt agent GA  https://bolt.example/1'' = ''launch''"
  "classify_wf env ''Foo!  https://acme.example/agent/1'' = ''upgrade''"
  "classify_wf env ''Foo?  https://acme.example/agent/2'' = ''upgrade''"
  "classify_wf env ''  https://acme.example/agent/3'' = ''upgrade''"
  "classify_wf env ''Bolt agent GA  https://bolt.example/1'' = ''launch''"
  by (simp_all add: classify_def classify_wf_def lower_def is_ascii_def lower_char_def)

lemmas id_defs = acme_def bolt_def safe_id_def item_id_wf_def strip_dash_def rstrip_dash_def
  lower_def is_ascii_def lower_char_def alnum_def

lemma demo_ids:
  "safe_id env ''2024-01-01'' (v_name acme) ''Foo!'' = ''2024-01-01-acme-foo''"
  "safe_id env ''2024-01-01'' (v_name acme) ''Foo?'' = ''2024-01-01-acme-foo''"
  "safe_id env ''2024-01-01'' (v_name bolt) ''Bolt agent GA'' = ''2024-01-01-bolt-bolt-agent-ga''"
  "item_id_wf env ''2024-01-01'' (v_name acme) ''Foo!'' = ''2024-01-01-acme-foo''"
  "item_id_wf env ''2024-01-01'' (v_name acme) ''Foo?'' = ''2024-01-01-acme-foo''"
  "item_id_wf env ''2024-01-02'' (v_name acme) [] = ''2024-01-02-acme-''"
  "item_id_wf env ''2024-01-01'' (v_name bolt) ''Bolt agent GA'' = ''2024-01-01-bolt-bolt-agent-ga''"
  by (simp_all add: id_defs)

lemma prep_foo1:
  "prepare demo_env 30 (clock demo_env n) acme (vendor_kws acme) entry_foo1
   = Inr (Some \<lparr>c_title = ''Foo!'', c_link = PStr ''https://acme.example/agent/1'',
                 c_date = ''2024-01-01'', c_type = ''upgrade'', c_id = ''2024-01-01-acme-foo''\<rparr>)"
  by (subst prepare_str [OF foo1_fields(1) _ foo1_fields(2) _ foo1_fields(4) demo_window(1) foo1_fields(3)])
     (simp_all add: demo_match demo_strftime demo_class demo_ids)

lemma prep_foo2:
  "prepare demo_env 30 (clock demo_env n) acme (vendor_kws acme) entry_foo2
   = Inr (Some \<lparr>c_title = ''Foo?'', c_link = PStr ''https://acme.example/agent/2'',
                 c_date = ''2024-01-01'', c_type = ''upgrade'', c_id = ''2024-01-01-acme-foo''\<rparr>)"
  by (subst prepare_str [OF foo2_fields(1) _ foo2_fields(2) _ foo2_fields(4) demo_window(1) foo2_fields(3)])
     (simp_all add: demo_match demo_strftime demo_class demo_ids)

lemma prep_untitled:
  "prepare demo_env 30 (clock demo_env n) acme (vendor_kws acme) entry_untitled = Inr None"
  by (rule prepare_rejects) (simp add: untitled_fields)

lemma prep_bolt:
  "prepare demo_env 30 (clock demo_env n) bolt (vendor_kws bolt) entry_bolt
   = Inr (Some \<lparr>c_title = ''Bolt agent GA'', c_link = PStr ''https://bolt.example/1'',
                 c_date = ''2024-01-01'', c_type = ''launch'',
                 c_id = ''2024-01-01-bolt-bolt-agent-ga''\<rparr>)"
  by (subst prepare_str [OF bolt_fields(1) _ bolt_fields(2) _ bolt_fields(4) demo_window(1) bolt_fields(3)])
     (simp_all add: demo_match demo_strftime demo_class demo_ids)

lemma build_foo1:
  "build_item demo_env acme entry_foo1
     \<lparr>c_title = ''Foo!'', c_link = PStr ''https://acme.example/agent/1'',
      c_date = ''2024-01-01'', c_type = ''upgrade'', c_id = ''2024-01-01-acme-foo''\<rparr>
   = Inr item_foo1"
  by (simp add: build_item_str [OF foo1_fields(3)] item_foo1_def demo_item_def acme_def demo_strftime)

lemma build_foo2:
  "build_item demo_env acme entry_foo2
     \<lparr>c_title = ''Foo?'', c_link = PStr ''https://acme.example/agent/2'',
      c_date = ''2024-01-01'', c_type = ''upgrade'', c_id = ''2024-01-01-acme-foo''\<rparr>
   = Inr item_foo2"
  by (simp add: build_item_str [OF foo2_fields(3)] item_foo2_def demo_item_def acme_def demo_strftime)

lemma build_bolt:
  "build_item demo_env bolt entry_bolt
     \<lparr>c_title = ''Bolt agent GA'', c_link = PStr ''https://bolt.example/1'',
      c_date = ''2024-01-01'', c_type = ''launch'', c_id = ''2024-01-01-bolt-bolt-agent-ga''\<rparr>
   = Inr item_bolt"
  by (simp add: build_item_str [OF bolt_fields(3)] item_bolt_def demo_item_def bolt_def demo_strftime)

lemmas demo_steps =
  process_entry_str [OF prep_foo1 build_foo1] process_entry_str [OF prep_foo2 build_foo2]
  process_entry_none [OF prep_untitled] process_entry_str [OF prep_bolt build_bolt]

lemma demo_feeds:
  "feed_entries demo_env ''https://acme.example/feed''
     = Inr [PDict entry_foo1, PDict entry_foo2, PDict entry_untitled]"
  "feed_entries demo_env ''https://bolt.example/feed'' = Inr [PDict entry_bolt]"
  "feed_entries_wf demo_env ''https://acme.example/feed''
     = Inr [PDict entry_foo1, PDict entry_foo2, PDict entry_untitled]"
  "feed_entries_wf demo_env ''https://bolt.example/feed'' = Inr [PDict entry_bolt]"
  by (simp_all add: feed_entries_def feed_entries_wf_def fetch_feed_def ends_with_def demo_env_def)

lemma demo_feeds_of: "v_feeds acme = [''https://acme.example/feed'']"
  "v_feeds bolt = [''https://bolt.example/feed'']"
  by (simp_all add: acme_def bolt_def)

lemmas run_simps = process_vendor_def process_feed_def demo_feeds demo_feeds_of demo_steps

lemma demo_seen_of: "seen_of [prior_item] = Inr {''2024-01-01-acme-foo''}"
  by (simp add: seen_of_def id_key_def prior_item_def dict_get_def py_or_def)

lemma demo_prior: "prior_items demo_env (demo_args ''prior.json'') = Inr [prior_item]"
  by (simp add: prior_items_def load_existing_def demo_env_def demo_args_def dict_get_default_def)

lemma demo_collect:
  "collect demo_env (demo_args ''prior.json'') [acme, bolt]
   = Inr \<lparr>seen = {''2024-01-01-bolt-bolt-agent-ga'', ''2024-01-01-acme-foo''},
          merged = [prior_item, item_dict item_bolt], tick = 4\<rparr>"
proof -
  have "load_existing demo_env ''prior.json'' = Inr (PList [PDict prior_item])"
    by (simp add: load_existing_def demo_env_def dict_get_default_def)
  then show ?thesis
    by (simp add: collect_def demo_args_def demo_seen_of run_simps)
qed

lemma demo_dates:
  "key_date prior_item = PStr ''2024-01-01''"
  "i_date item_bolt = ''2024-01-01''" "i_date item_foo1 = ''2024-01-01''"
  "i_date item_foo2 = ''2024-01-01''" "i_date item_untitled = ''2024-01-02''"
  "i_vendor item_bolt = ''Bolt''" "i_vendor item_foo1 = ''Acme''"
  "i_vendor item_foo2 = ''Acme''" "i_vendor item_untitled = ''Acme''"
  "i_name item_bolt = ''Bolt agent GA''" "i_name item_foo1 = ''Foo!''"
  "i_name item_foo2 = ''Foo?''" "i_name item_untitled = []"
  "i_id item_bolt = ''2024-01-01-bolt-bolt-agent-ga''" "i_id item_foo1 = ''2024-01-01-acme-foo''"
  "i_id item_foo2 = ''2024-01-01-acme-foo''" "i_id item_untitled = ''2024-01-02-acme-''"
  by (simp_all add: key_date_def prior_item_def dict_get_def py_or_def item_bolt_def
        item_foo1_def item_foo2_def item_untitled_def demo_item_def)

lemma demo_sorted:
  "py_sort_desc key_date [prior_item, item_dict item_bolt] = Inr [prior_item, item_dict item_bolt]"
  by (simp add: py_sort_desc_def sort_lt_def py_lt_def demo_dates)

lemma demo_main:
  "main demo_env (demo_args ''prior.json'') [acme, bolt] = Inr [prior_item, item_dict item_bolt]"
  by (simp add: main_def demo_collect demo_sorted) (simp add: py_take_def demo_args_def)

lemma demo_collect_fresh:
  "collect demo_env (demo_args []) [acme, bolt]
   = Inr \<lparr>seen = {''2024-01-01-bolt-bolt-agent-ga'', ''2024-01-01-acme-foo''},
          merged = [item_dict item_foo1, item_dict item_bolt], tick = 4\<rparr>"
  by (simp add: collect_def load_existing_def demo_args_def seen_of_def run_simps)


lemmas vendor_fields = acme_def bolt_def item_foo1_def item_foo2_def item_untitled_def item_bolt_def
  demo_item_def

lemma wf_foo1:
  "entry_item_wf demo_env 30 (clock demo_env n) acme (vendor_kws_wf acme) entry_foo1
   = Inr (Some item_foo1)"
  by (subst entry_item_wf_str [OF foo1_fields(1) foo1_fields(2) _ foo1_fields(6) demo_window(1)
        foo1_fields(5) _ foo1_fields(3)])
     (simp_all add: demo_match demo_strftime demo_class demo_ids, simp add: vendor_fields)

lemma wf_foo2:
  "entry_item_wf demo_env 30 (clock demo_env n) acme (vendor_kws_wf acme) entry_foo2
   = Inr (Some item_foo2)"
  by (subst entry_item_wf_str [OF foo2_fields(1) foo2_fields(2) _ foo2_fields(6) demo_window(1)
        foo2_fields(5) _ foo2_fields(3)])
     (simp_all add: demo_match demo_strftime demo_class demo_ids, simp add: vendor_fields)

lemma wf_untitled:
  "entry_item_wf demo_env 30 (clock demo_env n) acme (vendor_kws_wf acme) entry_untitled
   = Inr (Some item_untitled)"
  by (subst entry_item_wf_str [OF untitled_fields(1) untitled_fields(2) _ untitled_fields(6)
        demo_window(2) untitled_fields(5) _ untitled_fields(3)])
     (simp_all add: demo_match demo_strftime demo_class demo_ids, simp add: vendor_fields)

lemma wf_bolt:
  "entry_item_wf demo_env 30 (clock demo_env n) bolt (vendor_kws_wf bolt) entry_bolt
   = Inr (Some item_bolt)"
  by (subst entry_item_wf_str [OF bolt_fields(1) bolt_fields(2) _ bolt_fields(6) demo_window(1)
        bolt_fields(5) _ bolt_fields(3)])
     (simp_all add: demo_match demo_strftime demo_class demo_ids, simp add: vendor_fields)

lemmas demo_steps_wf = process_entry_wf_str [OF wf_foo1] process_entry_wf_str [OF wf_foo2]
  process_entry_wf_str [OF wf_untitled] process_entry_wf_str [OF wf_bolt]

lemma demo_collect_wf:
  "collect_wf demo_env (demo_args []) [acme, bolt]
   = Inr \<lparr>items = [item_foo1, item_foo2, item_untitled, item_bolt], tick_wf = 4\<rparr>"
  by (simp add: collect_wf_def demo_args_def process_vendor_wf_def process_feed_wf_def demo_feeds
        demo_feeds_of demo_steps_wf)

lemma demo_sorted_wf:
  "sorted_desc (\<lambda>x. (i_date x, i_vendor x)) [item_foo1, item_foo2, item_untitled, item_bolt]
   = [item_untitled, item_bolt, item_foo1, item_foo2]"
  by (simp add: sorted_desc_def demo_dates)

lemma demo_dedup:
  "dedup {} [item_untitled, item_bolt, item_foo1, item_foo2]
   = [item_untitled, item_bolt, item_foo1, item_foo2]"
  by (simp add: Let_def demo_dates)

lemma demo_main_wf:
  "main_wf demo_env (demo_args []) [acme, bolt] = Inr [item_untitled, item_bolt, item_foo1, item_foo2]"
  by (simp add: main_wf_def demo_collect_wf demo_sorted_wf demo_dedup del: dedup.simps)
     (simp add: py_take_def demo_args_def)

lemma demo_twice:
  "main demo_env (demo_args ''twice.json'') [] = Inr [[(''id'', PStr ''a'')], [(''id'', PStr ''a'')]]"
  by (simp add: main_def collect_def load_existing_def demo_env_def demo_args_def seen_of_def
        id_key_def key_date_def dict_get_def py_or_def py_sort_desc_def sort_lt_def py_lt_def
        py_take_def)

lemma demo_numbers:
  "collect demo_env (demo_args ''numbers.json'') []
     = Inr \<lparr>seen = {''a'', ''b'', ''c'', ''d''},
            merged = [[(''id'', PStr ''a''), (''date'', PInt 5)],
                      [(''id'', PStr ''b''), (''date'', PInt 7)],
                      [(''id'', PStr ''c''), (''date'', PBool True)],
                      [(''id'', PStr ''d''), (''date'', PInt 1)]], tick = 0\<rparr>"
  "main demo_env (demo_args ''numbers.json'') []
     = Inr [[(''id'', PStr ''b''), (''date'', PInt 7)],
            [(''id'', PStr ''a''), (''date'', PInt 5)],
            [(''id'', PStr ''c''), (''date'', PBool True)],
            [(''id'', PStr ''d''), (''date'', PInt 1)]]"
  by (simp_all add: main_def collect_def load_existing_def demo_env_def demo_args_def seen_of_def
        id_key_def key_date_def dict_get_def py_or_def py_sort_desc_def sort_lt_def py_lt_def
        py_take_def insert_commute)

subsection \<open>The output\<close>

text \<open>
  C2, as the claim states it. The incremental script keeps the dictionaries of the prior
  snapshot as they are: a snapshot that holds the identifier \<^verbatim>\<open>a\<close> twice gives an
  output that holds it twice. The stateless script removes duplicates by vendor and
  name: the titles \<^verbatim>\<open>Foo!\<close> and \<^verbatim>\<open>Foo?\<close> of one vendor and day are two names with
  one identifier, and both items are in the output.
\<close>

theorem output_ids_repeat:
  "main demo_env (demo_args ''twice.json'') []
     = Inr [[(''id'', PStr ''a'')], [(''id'', PStr ''a'')]]
   \<and> \<not> distinct (map id_key [[(''id'', PStr ''a'')], [(''id'', PStr ''a'')]])
   \<and> main_wf demo_env (demo_args []) [acme, bolt]
     = Inr [item_untitled, item_bolt, item_foo1, item_foo2]
   \<and> \<not> distinct (map i_id [item_untitled, item_bolt, item_foo1, item_foo2])"
  by (simp add: demo_twice demo_main_wf demo_dates)

text \<open>
  C2, amended. In the incremental script, when the dictionaries of the prior snapshot
  have pairwise different identifiers, so have the items of the output. In the
  stateless script no two items of the output have the same vendor and name.
\<close>

theorem output_ids:
  "(prior_items env a = Inr prior \<and> distinct (map id_key prior) \<and> main env a vendors = Inr out
      \<longrightarrow> distinct (map id_key out))
   \<and> (main_wf env a vendors = Inr out_wf
      \<longrightarrow> distinct (map (\<lambda>it. (i_vendor it, i_name it)) out_wf))"
proof (intro conjI impI)
  assume h: "prior_items env a = Inr prior \<and> distinct (map id_key prior)
             \<and> main env a vendors = Inr out"
  then obtain st sorted_items where c: "collect env a vendors = Inr st"
    and s: "py_sort_desc key_date (merged st) = Inr sorted_items"
    and o: "out = py_take (a_top a) sorted_items"
    using main_parts by blast
  from collect_grows [OF _ c] h obtain seen0 new where "seen_of prior = Inr seen0"
    and "grows \<lparr>seen = seen0, merged = prior, tick = 0\<rparr> new st"
    by blast
  with h have "distinct (map id_key (merged st))"
    using grows_ids_distinct by blast
  moreover have "mset (map id_key sorted_items) = mset (map id_key (merged st))"
    using py_sort_desc_mset [OF s] by simp
  ultimately have "distinct (map id_key sorted_items)"
    using mset_eq_imp_distinct_iff by blast
  then show "distinct (map id_key out)"
    unfolding o by (rule prefix_distinct_map [OF py_take_prefix])
next
  assume "main_wf env a vendors = Inr out_wf"
  then obtain xs where "out_wf = py_take (a_top a) (dedup {} xs)"
    using main_wf_parts by blast
  then show "distinct (map (\<lambda>it. (i_vendor it, i_name it)) out_wf)"
    using dedup_keys [of "{}" xs] prefix_distinct_map [OF py_take_prefix] by blast
qed

theorem output_ids_witness:
  "prior_items demo_env (demo_args ''prior.json'') = Inr [prior_item]
   \<and> distinct (map id_key [prior_item])
   \<and> main demo_env (demo_args ''prior.json'') [acme, bolt] = Inr [prior_item, item_dict item_bolt]
   \<and> distinct (map id_key [prior_item, item_dict item_bolt])
   \<and> main_wf demo_env (demo_args []) [acme, bolt]
     = Inr [item_untitled, item_bolt, item_foo1, item_foo2]
   \<and> distinct (map (\<lambda>it. (i_vendor it, i_name it))
        [item_untitled, item_bolt, item_foo1, item_foo2])"
  using
    output_ids [where env = demo_env and a = "demo_args ''prior.json''" and prior = "[prior_item]"
      and vendors = "[acme, bolt]" and out = "[prior_item, item_dict item_bolt]"]
    output_ids [where env = demo_env and a = "demo_args []" and vendors = "[acme, bolt]"
      and out_wf = "[item_untitled, item_bolt, item_foo1, item_foo2]"]
  by (simp add: demo_prior demo_main demo_main_wf)

text \<open>
  C3, as the claim states it. In the stateless script the sort key is the pair of date
  and vendor: the item of vendor Bolt, met last, comes before the items of vendor Acme
  of the same day, met first.
\<close>

theorem vendor_breaks_ties:
  "collect_wf demo_env (demo_args []) [acme, bolt]
     = Inr \<lparr>items = [item_foo1, item_foo2, item_untitled, item_bolt], tick_wf = 4\<rparr>
   \<and> main_wf demo_env (demo_args []) [acme, bolt]
     = Inr [item_untitled, item_bolt, item_foo1, item_foo2]
   \<and> filter (\<lambda>x. i_date x = ''2024-01-01'') [item_foo1, item_foo2, item_untitled, item_bolt]
     = [item_foo1, item_foo2, item_bolt]
   \<and> filter (\<lambda>x. i_date x = ''2024-01-01'') [item_untitled, item_bolt, item_foo1, item_foo2]
     = [item_bolt, item_foo1, item_foo2]
   \<and> item_bolt \<noteq> item_foo1"
  by (simp add: demo_collect_wf demo_main_wf demo_dates) (simp add: vendor_fields)

text \<open>
  C3, amended. Every output is sorted by date in non-increasing order: in the incremental
  script no item stands before an item whose date is greater by Python's \<^verbatim>\<open><\<close>, which
  on two date strings is the order of the strings, and the items of equal dates keep the
  order in which \<^verbatim>\<open>merged\<close> met them (those of the prior snapshot, then the new ones).
  In the stateless script the output is sorted by the pair of date and vendor in
  non-increasing order, and only the items of one date and one vendor keep the order in
  which they were met.
\<close>

theorem output_order:
  "(collect env a vendors = Inr st \<and> main env a vendors = Inr out
      \<longrightarrow> sorted_wrt (\<lambda>x y. py_lt (key_date x) (key_date y) = Inr False) out
        \<and> (\<forall>d. prefix (filter (\<lambda>x. py_eq (key_date x) d) out)
                       (filter (\<lambda>x. py_eq (key_date x) d) (merged st))))
   \<and> py_lt (PStr s) (PStr t) = Inr (s < t)
   \<and> py_eq (PStr s) (PStr t) = (s = t)
   \<and> key_date (item_dict it) = PStr (i_date it)
   \<and> (collect_wf env a vendors = Inr st_wf \<and> main_wf env a vendors = Inr out_wf
      \<longrightarrow> sorted_wrt (\<lambda>x y. i_date y \<le> i_date x) out_wf
        \<and> sorted_wrt (\<lambda>x y. key_wf y \<le> key_wf x) out_wf
        \<and> (\<forall>k. subseq (filter (\<lambda>x. key_wf x = k) out_wf)
                       (filter (\<lambda>x. key_wf x = k) (items st_wf))))"
proof (intro conjI impI allI)
  assume h: "collect env a vendors = Inr st \<and> main env a vendors = Inr out"
  then obtain sorted_items where s: "py_sort_desc key_date (merged st) = Inr sorted_items"
    and o: "out = py_take (a_top a) sorted_items"
    using main_parts by fastforce
  have p: "prefix out sorted_items"
    unfolding o by (rule py_take_prefix)
  show "sorted_wrt (\<lambda>x y. py_lt (key_date x) (key_date y) = Inr False) out"
    using prefix_sorted_wrt [OF p] py_sort_desc_sorted [OF s] by blast
  fix d
  show "prefix (filter (\<lambda>x. py_eq (key_date x) d) out) (filter (\<lambda>x. py_eq (key_date x) d) (merged st))"
    using filter_mono_prefix [OF p] py_sort_desc_stable [OF s] by metis
next
  show "py_lt (PStr s) (PStr t) = Inr (s < t)"
    by (simp add: py_lt_def)
  show "py_eq (PStr s) (PStr t) = (s = t)"
    by (simp add: py_eq_def)
  show "key_date (item_dict it) = PStr (i_date it)"
    by simp
next
  assume h: "collect_wf env a vendors = Inr st_wf \<and> main_wf env a vendors = Inr out_wf"
  then have sub: "subseq out_wf (sorted_desc key_wf (items st_wf))"
    using main_wf_subseq by blast
  show k: "sorted_wrt (\<lambda>x y. key_wf y \<le> key_wf x) out_wf"
    using sorted_wrt_subseq [OF sub] sorted_desc_sorted by blast
  show "sorted_wrt (\<lambda>x y. i_date y \<le> i_date x) out_wf"
    using k by (rule sorted_wrt_mono_rel [rotated]) (use fst_le in \<open>force simp: key_wf_def\<close>)
  fix k
  show "subseq (filter (\<lambda>x. key_wf x = k) out_wf) (filter (\<lambda>x. key_wf x = k) (items st_wf))"
    using subseq_filter [OF sub, of "\<lambda>x. key_wf x = k"] by (simp add: sorted_desc_stable)
qed

theorem output_order_witness:
  "collect demo_env (demo_args ''prior.json'') [acme, bolt]
     = Inr \<lparr>seen = {''2024-01-01-bolt-bolt-agent-ga'', ''2024-01-01-acme-foo''},
            merged = [prior_item, item_dict item_bolt], tick = 4\<rparr>
   \<and> main demo_env (demo_args ''prior.json'') [acme, bolt] = Inr [prior_item, item_dict item_bolt]
   \<and> sorted_wrt (\<lambda>x y. py_lt (key_date x) (key_date y) = Inr False)
        [prior_item, item_dict item_bolt]
   \<and> prefix (filter (\<lambda>x. py_eq (key_date x) (PStr ''2024-01-01'')) [prior_item, item_dict item_bolt])
        (filter (\<lambda>x. py_eq (key_date x) (PStr ''2024-01-01'')) [prior_item, item_dict item_bolt])
   \<and> collect demo_env (demo_args ''numbers.json'') []
     = Inr \<lparr>seen = {''a'', ''b'', ''c'', ''d''},
            merged = [[(''id'', PStr ''a''), (''date'', PInt 5)],
                      [(''id'', PStr ''b''), (''date'', PInt 7)],
                      [(''id'', PStr ''c''), (''date'', PBool True)],
                      [(''id'', PStr ''d''), (''date'', PInt 1)]], tick = 0\<rparr>
   \<and> main demo_env (demo_args ''numbers.json'') []
     = Inr [[(''id'', PStr ''b''), (''date'', PInt 7)],
            [(''id'', PStr ''a''), (''date'', PInt 5)],
            [(''id'', PStr ''c''), (''date'', PBool True)],
            [(''id'', PStr ''d''), (''date'', PInt 1)]]
   \<and> sorted_wrt (\<lambda>x y. py_lt (key_date x) (key_date y) = Inr False)
        [[(''id'', PStr ''b''), (''date'', PInt 7)],
         [(''id'', PStr ''a''), (''date'', PInt 5)],
         [(''id'', PStr ''c''), (''date'', PBool True)],
         [(''id'', PStr ''d''), (''date'', PInt 1)]]
   \<and> prefix (filter (\<lambda>x. py_eq (key_date x) (PInt 1))
                [[(''id'', PStr ''b''), (''date'', PInt 7)],
                 [(''id'', PStr ''a''), (''date'', PInt 5)],
                 [(''id'', PStr ''c''), (''date'', PBool True)],
                 [(''id'', PStr ''d''), (''date'', PInt 1)]])
        (filter (\<lambda>x. py_eq (key_date x) (PInt 1))
                [[(''id'', PStr ''a''), (''date'', PInt 5)],
                 [(''id'', PStr ''b''), (''date'', PInt 7)],
                 [(''id'', PStr ''c''), (''date'', PBool True)],
                 [(''id'', PStr ''d''), (''date'', PInt 1)]])
   \<and> py_lt (PStr ''2024-01-01'') (PStr ''2024-01-02'') = Inr True
   \<and> collect_wf demo_env (demo_args []) [acme, bolt]
     = Inr \<lparr>items = [item_foo1, item_foo2, item_untitled, item_bolt], tick_wf = 4\<rparr>
   \<and> main_wf demo_env (demo_args []) [acme, bolt]
     = Inr [item_untitled, item_bolt, item_foo1, item_foo2]
   \<and> sorted_wrt (\<lambda>x y. i_date y \<le> i_date x) [item_untitled, item_bolt, item_foo1, item_foo2]
   \<and> sorted_wrt (\<lambda>x y. key_wf y \<le> key_wf x) [item_untitled, item_bolt, item_foo1, item_foo2]
   \<and> subseq (filter (\<lambda>x. key_wf x = (''2024-01-01'', ''Acme''))
                [item_untitled, item_bolt, item_foo1, item_foo2])
        (filter (\<lambda>x. key_wf x = (''2024-01-01'', ''Acme''))
                [item_foo1, item_foo2, item_untitled, item_bolt])"
proof -
  note a = output_order [where env = demo_env and a = "demo_args ''prior.json''"
      and vendors = "[acme, bolt]" and out = "[prior_item, item_dict item_bolt]"
      and st = "\<lparr>seen = {''2024-01-01-bolt-bolt-agent-ga'', ''2024-01-01-acme-foo''},
            merged = [prior_item, item_dict item_bolt], tick = 4\<rparr>",
      THEN conjunct1, rule_format]
  note n = output_order [where env = demo_env and a = "demo_args ''numbers.json''"
      and vendors = "[]"
      and out = "[[(''id'', PStr ''b''), (''date'', PInt 7)],
            [(''id'', PStr ''a''), (''date'', PInt 5)],
            [(''id'', PStr ''c''), (''date'', PBool True)],
            [(''id'', PStr ''d''), (''date'', PInt 1)]]"
      and st = "\<lparr>seen = {''a'', ''b'', ''c'', ''d''},
            merged = [[(''id'', PStr ''a''), (''date'', PInt 5)],
                      [(''id'', PStr ''b''), (''date'', PInt 7)],
                      [(''id'', PStr ''c''), (''date'', PBool True)],
                      [(''id'', PStr ''d''), (''date'', PInt 1)]], tick = 0\<rparr>",
      THEN conjunct1, rule_format]
  note b = output_order [where env = demo_env and a = "demo_args []" and vendors = "[acme, bolt]"
      and out_wf = "[item_untitled, item_bolt, item_foo1, item_foo2]"
      and st_wf = "\<lparr>items = [item_foo1, item_foo2, item_untitled, item_bolt], tick_wf = 4\<rparr>",
      THEN conjunct2, THEN conjunct2, THEN conjunct2, THEN conjunct2, rule_format]
  note l = output_order [where s = "''2024-01-01''" and t = "''2024-01-02''",
      THEN conjunct2, THEN conjunct1]
  have c: "collect demo_env (demo_args ''prior.json'') [acme, bolt]
     = Inr \<lparr>seen = {''2024-01-01-bolt-bolt-agent-ga'', ''2024-01-01-acme-foo''},
            merged = [prior_item, item_dict item_bolt], tick = 4\<rparr>
     \<and> main demo_env (demo_args ''prior.json'') [acme, bolt] = Inr [prior_item, item_dict item_bolt]"
    by (simp add: demo_collect demo_main)
  have m: "collect demo_env (demo_args ''numbers.json'') []
     = Inr \<lparr>seen = {''a'', ''b'', ''c'', ''d''},
            merged = [[(''id'', PStr ''a''), (''date'', PInt 5)],
                      [(''id'', PStr ''b''), (''date'', PInt 7)],
                      [(''id'', PStr ''c''), (''date'', PBool True)],
                      [(''id'', PStr ''d''), (''date'', PInt 1)]], tick = 0\<rparr>
     \<and> main demo_env (demo_args ''numbers.json'') []
     = Inr [[(''id'', PStr ''b''), (''date'', PInt 7)],
            [(''id'', PStr ''a''), (''date'', PInt 5)],
            [(''id'', PStr ''c''), (''date'', PBool True)],
            [(''id'', PStr ''d''), (''date'', PInt 1)]]"
    by (simp only: demo_numbers simp_thms)
  have d: "collect_wf demo_env (demo_args []) [acme, bolt]
     = Inr \<lparr>items = [item_foo1, item_foo2, item_untitled, item_bolt], tick_wf = 4\<rparr>
     \<and> main_wf demo_env (demo_args []) [acme, bolt]
       = Inr [item_untitled, item_bolt, item_foo1, item_foo2]"
    by (simp add: demo_collect_wf demo_main_wf)
  have e: "(''2024-01-01'' :: string) < ''2024-01-02''"
    by simp
  from a [OF c] n [OF m] b [OF d] l c m d e show ?thesis
    by (simp del: sorted_wrt.simps filter.simps)
qed

subsection \<open>Merging with the prior snapshot\<close>



subsection \<open>Normalization\<close>

lemma entry_title_absent:
  "map_of e ''title'' = None \<Longrightarrow> map_of e ''heading'' = None \<Longrightarrow> entry_title e = PStr []"
  by (simp add: entry_title_def dict_get_def py_or_def)

text \<open>
  C8, as the claim states it. An entry with a link and neither title nor heading: the
  incremental script drops it at \<^verbatim>\<open>if not link or not title: continue\<close> and the state
  does not change, while the stateless script builds an item from it.
\<close>

theorem untitled_entry_rejected:
  "truthy (entry_link entry_untitled)
   \<and> map_of entry_untitled ''title'' = None \<and> map_of entry_untitled ''heading'' = None
   \<and> prepare demo_env 30 (clock demo_env 0) acme (vendor_kws acme) entry_untitled = Inr None
   \<and> process_entry demo_env 30 acme (vendor_kws acme) (PDict entry_untitled) start
     = Inr (start\<lparr>tick := 1\<rparr>)
   \<and> entry_item_wf demo_env 30 (clock demo_env 0) acme (vendor_kws_wf acme) entry_untitled
     = Inr (Some item_untitled)"
  by (simp add: untitled_fields prep_untitled process_entry_none [OF prep_untitled] wf_untitled
        start_def)
     (simp add: entry_untitled_def)

text \<open>
  C8, amended. The stateless script rejects a raw entry at normalization only when it
  has no resolvable link; an entry with a link whose title and heading are both absent
  gets the empty string as title and, when it passes the window and the keyword filter,
  gives an item with an empty name. The incremental script rejects an entry when its
  link or its title is empty, so every candidate it goes on with has a link and a
  non-empty title.
\<close>

theorem normalization_rejects:
  "(\<not> truthy (entry_link e)
      \<longrightarrow> entry_item_wf env days now v kws e = Inr None \<and> prepare env days now v kws e = Inr None)
   \<and> (\<not> truthy (entry_title e) \<longrightarrow> prepare env days now v kws e = Inr None)
   \<and> (map_of e ''title'' = None \<and> map_of e ''heading'' = None \<longrightarrow> entry_title e = PStr [])
   \<and> (entry_title e = PStr [] \<and> entry_link e = PStr l \<and> l \<noteq> []
        \<and> entry_date_wf env e = Inr (Some dt) \<and> in_window now (Some dt) days
        \<and> entry_desc_wf e = PStr sm \<and> match_kws env ([] @ '' '' @ sm @ '' '' @ l) kws
        \<and> entry_summary e = PStr []
      \<longrightarrow> (\<exists>it. entry_item_wf env days now v kws e = Inr (Some it) \<and> i_name it = []
               \<and> i_sources it = [[(''title'', PStr (v_name v @ '' source'')), (''url'', PStr l)]]))
   \<and> (entry_item_wf env days now v kws e = Inr (Some it') \<longrightarrow> truthy (entry_link e))
   \<and> (prepare env days now v kws e = Inr (Some c)
      \<longrightarrow> truthy (entry_link e) \<and> entry_title e = PStr (c_title c) \<and> c_title c \<noteq> [])"
proof (intro conjI impI)
  assume "entry_title e = PStr [] \<and> entry_link e = PStr l \<and> l \<noteq> []
        \<and> entry_date_wf env e = Inr (Some dt) \<and> in_window now (Some dt) days
        \<and> entry_desc_wf e = PStr sm \<and> match_kws env ([] @ '' '' @ sm @ '' '' @ l) kws
        \<and> entry_summary e = PStr []"
  then show "\<exists>it. entry_item_wf env days now v kws e = Inr (Some it) \<and> i_name it = []
               \<and> i_sources it = [[(''title'', PStr (v_name v @ '' source'')), (''url'', PStr l)]]"
    using entry_item_wf_str [of e "[]" l env dt now days sm kws v] by simp
qed (auto simp: entry_item_wf_rejects prepare_rejects entry_title_absent
       dest: entry_item_wf_Some prepare_Some)

theorem normalization_rejects_witness:
  "\<not> truthy (entry_link entry_parsed_only)
   \<and> entry_item_wf demo_env 30 jan3 acme (vendor_kws_wf acme) entry_parsed_only = Inr None
   \<and> prepare demo_env 30 jan3 acme (vendor_kws acme) entry_parsed_only = Inr None
   \<and> \<not> truthy (entry_title entry_untitled)
   \<and> prepare demo_env 30 jan3 acme (vendor_kws acme) entry_untitled = Inr None
   \<and> map_of entry_untitled ''title'' = None \<and> map_of entry_untitled ''heading'' = None
   \<and> entry_title entry_untitled = PStr []
   \<and> entry_link entry_untitled = PStr ''https://acme.example/agent/3''
   \<and> entry_date_wf demo_env entry_untitled = Inr (Some jan2)
   \<and> in_window jan3 (Some jan2) 30
   \<and> entry_desc_wf entry_untitled = PStr []
   \<and> match_kws demo_env ''  https://acme.example/agent/3'' (vendor_kws_wf acme)
   \<and> entry_summary entry_untitled = PStr []
   \<and> entry_item_wf demo_env 30 jan3 acme (vendor_kws_wf acme) entry_untitled = Inr (Some item_untitled)
   \<and> i_name item_untitled = []
   \<and> truthy (entry_link entry_untitled)
   \<and> prepare demo_env 30 jan3 acme (vendor_kws acme) entry_foo1
     = Inr (Some \<lparr>c_title = ''Foo!'', c_link = PStr ''https://acme.example/agent/1'',
                   c_date = ''2024-01-01'', c_type = ''upgrade'',
                   c_id = ''2024-01-01-acme-foo''\<rparr>)
   \<and> truthy (entry_link entry_foo1) \<and> entry_title entry_foo1 = PStr ''Foo!''"
proof -
  have j: "clock demo_env 0 = jan3" by (simp add: demo_env_def)
  have l: "entry_link entry_parsed_only = PStr []"
    by (simp add: entry_link_def entry_parsed_only_def dict_get_def py_or_def)
  have m: "map_of entry_untitled ''title'' = None \<and> map_of entry_untitled ''heading'' = None"
    by (simp add: entry_untitled_def)
  note a = normalization_rejects [where e = entry_parsed_only and env = demo_env and days = 30
      and now = jan3 and v = acme and kws = "vendor_kws_wf acme"]
    normalization_rejects [where e = entry_parsed_only and env = demo_env and days = 30
      and now = jan3 and v = acme and kws = "vendor_kws acme"]
    normalization_rejects [where e = entry_untitled and env = demo_env and days = 30
      and now = jan3 and v = acme and kws = "vendor_kws acme"]
    normalization_rejects [where e = entry_untitled and env = demo_env and days = 30
      and now = jan3 and v = acme and kws = "vendor_kws_wf acme" and it' = item_untitled
      and l = "''https://acme.example/agent/3''" and dt = jan2 and sm = "[]"]
    normalization_rejects [where e = entry_foo1 and env = demo_env and days = 30
      and now = jan3 and v = acme and kws = "vendor_kws acme"
      and c = "\<lparr>c_title = ''Foo!'', c_link = PStr ''https://acme.example/agent/1'',
                   c_date = ''2024-01-01'', c_type = ''upgrade'',
                   c_id = ''2024-01-01-acme-foo''\<rparr>"]
  from a show ?thesis
    using prep_foo1 [of 0] wf_untitled [of 0] demo_window(2) [of 0] demo_match(6) [of demo_env acme]
    by (simp add: j l m untitled_fields foo1_fields demo_dates)
qed

subsection \<open>Sources\<close>





















end
